theory Spec2Isabelle
  imports Complex_Main "HOL-Library.Log_Nat"
begin

section \<open>JavaScript values\<close>

text \<open>
  The telemetry bridge is JavaScript. Its event and metric processors read dynamically typed
  attribute values and datapoint fields, so the model starts with the values themselves.

  A number is an exact real, or one of the three special numbers. Rounding to binary64 is
  not modelled, and \<open>-0\<close> is identified with \<open>0\<close> (the code never tells them apart).
  The values are the scalars an OTLP attribute or datapoint field decodes to; arrays and
  key-value lists as attribute values are outside the model. A string is the list of its
  code units.
\<close>

datatype jsnum = Fin real | NaN | PInf | NInf

datatype jsval = JUndefined | JNull | JBool bool | JNum jsnum | JStr string

text \<open>An object literal: its own properties in insertion order.\<close>

type_synonym obj = "(string \<times> jsval) list"

text \<open>ToBoolean.\<close>

fun truthy_num :: "jsnum \<Rightarrow> bool" where
  "truthy_num (Fin r) = (r \<noteq> 0)"
| "truthy_num NaN = False"
| "truthy_num PInf = True"
| "truthy_num NInf = True"

fun truthy :: "jsval \<Rightarrow> bool" where
  "truthy JUndefined = False"
| "truthy JNull = False"
| "truthy (JBool b) = b"
| "truthy (JNum n) = truthy_num n"
| "truthy (JStr s) = (s \<noteq> [])"

text \<open>\<^verbatim>\<open>a || b\<close>\<close>

definition js_or :: "jsval \<Rightarrow> jsval \<Rightarrow> jsval" where
  "js_or a b = (if truthy a then a else b)"

text \<open>\<^verbatim>\<open>a + b\<close>, \<^verbatim>\<open>a / b\<close> for a finite non-zero \<open>b\<close>, and \<^verbatim>\<open>a <= b\<close> on numbers.\<close>

fun js_add :: "jsnum \<Rightarrow> jsnum \<Rightarrow> jsnum" where
  "js_add (Fin a) (Fin b) = Fin (a + b)"
| "js_add NaN _ = NaN"
| "js_add _ NaN = NaN"
| "js_add PInf NInf = NaN"
| "js_add NInf PInf = NaN"
| "js_add PInf _ = PInf"
| "js_add _ PInf = PInf"
| "js_add NInf _ = NInf"
| "js_add _ NInf = NInf"

fun js_div_pos :: "jsnum \<Rightarrow> real \<Rightarrow> jsnum" where
  "js_div_pos (Fin a) d = Fin (a / d)"
| "js_div_pos n d = n"

fun js_le :: "jsnum \<Rightarrow> jsnum \<Rightarrow> bool" where
  "js_le NaN _ = False"
| "js_le _ NaN = False"
| "js_le NInf _ = True"
| "js_le _ PInf = True"
| "js_le (Fin a) (Fin b) = (a \<le> b)"
| "js_le _ _ = False"

subsection \<open>Characters and decimal numerals\<close>

definition is_digit :: "char \<Rightarrow> bool" where
  "is_digit c = (c \<in> set ''0123456789'')"

text \<open>StrWhiteSpaceChar, for the code units the model has.\<close>

definition is_space :: "char \<Rightarrow> bool" where
  "is_space c = (c \<in> {CHR 0x09, CHR 0x0A, CHR 0x0B, CHR 0x0C, CHR 0x0D, CHR 0x20, CHR 0xA0})"

text \<open>The value of a decimal digit: its position among the digits.\<close>

definition digit_val :: "char \<Rightarrow> nat" where
  "digit_val c = length (takeWhile (\<lambda>d. d \<noteq> c) ''0123456789'') mod 10"

definition dec_val :: "string \<Rightarrow> nat" where
  "dec_val ds = foldl (\<lambda>acc c. 10 * acc + digit_val c) 0 ds"

definition digit_char :: "nat \<Rightarrow> char" where
  "digit_char d = ''0123456789'' ! d"

text \<open>The decimal digits of a natural number, most significant first.\<close>

fun show_nat :: "nat \<Rightarrow> string" where
  "show_nat n = (if n < 10 then [digit_char n] else show_nat (n div 10) @ [digit_char (n mod 10)])"

declare show_nat.simps [simp del]

text \<open>\<^verbatim>\<open>String(n)\<close> for an integer \<open>n\<close> below \<open>10^21\<close> in magnitude.\<close>

definition show_int :: "int \<Rightarrow> string" where
  "show_int i = (if i < 0 then CHR ''-'' # show_nat (nat (- i)) else show_nat (nat i))"

text \<open>\<^verbatim>\<open>s.padStart(n, '0')\<close>\<close>

definition padStart0 :: "nat \<Rightarrow> string \<Rightarrow> string" where
  "padStart0 n s = replicate (n - length s) CHR ''0'' @ s"

subsection \<open>parseInt and parseFloat\<close>

text \<open>
  \<^verbatim>\<open>parseInt(s, 10)\<close> on a string: leading white space is skipped, a sign is read, then the
  longest run of decimal digits; without a digit the result is NaN.
\<close>

definition parseInt_str :: "string \<Rightarrow> jsnum" where
  "parseInt_str s =
     (let t = dropWhile is_space s;
          neg = (t \<noteq> [] \<and> hd t = CHR ''-'');
          u = (if t \<noteq> [] \<and> (hd t = CHR ''-'' \<or> hd t = CHR ''+'') then tl t else t);
          ds = takeWhile is_digit u
      in if ds = [] then NaN
         else if neg then Fin (- real (dec_val ds)) else Fin (real (dec_val ds)))"

text \<open>Rounding towards zero.\<close>

definition trunc :: "real \<Rightarrow> int" where
  "trunc r = (if 0 \<le> r then \<lfloor>r\<rfloor> else \<lceil>r\<rceil>)"

text \<open>
  The first significant decimal digit of a positive real: what is left of
  \<^verbatim>\<open>String(x)\<close> for \<^verbatim>\<open>parseInt\<close> when the number prints in exponent notation.
\<close>

definition leading_digit :: "real \<Rightarrow> int" where
  "leading_digit x =
     (if 1 \<le> x then int (nat \<lfloor>x\<rfloor> div 10 ^ (floorlog 10 (nat \<lfloor>x\<rfloor>) - 1))
      else \<lfloor>x * 10 ^ floorlog 10 (nat \<lceil>1 / x\<rceil> - 1)\<rfloor>)"

text \<open>
  \<^verbatim>\<open>parseInt(x, 10)\<close> on a number, that is on \<^verbatim>\<open>String(x)\<close>. A number with
  \<open>10^-6 \<le> |x| < 10^21\<close> prints in decimal notation and \<^verbatim>\<open>parseInt\<close> reads its integer part;
  outside it prints as \<^verbatim>\<open>d.ddde\<plusminus>n\<close> and \<^verbatim>\<open>parseInt\<close> reads the sign and the first digit.
  \<^verbatim>\<open>"NaN"\<close> and \<^verbatim>\<open>"Infinity"\<close> have no digit.
\<close>

fun parseInt_num :: "jsnum \<Rightarrow> jsnum" where
  "parseInt_num (Fin r) =
     (if r = 0 then Fin 0
      else if 1 / 10 ^ 6 \<le> \<bar>r\<bar> \<and> \<bar>r\<bar> < 10 ^ 21 then Fin (real_of_int (trunc r))
      else if r < 0 then Fin (- real_of_int (leading_digit (- r)))
      else Fin (real_of_int (leading_digit r)))"
| "parseInt_num n = NaN"

text \<open>
  \<^verbatim>\<open>parseInt(v, 10)\<close> on a value. \<^verbatim>\<open>"undefined"\<close>, \<^verbatim>\<open>"null"\<close>, \<^verbatim>\<open>"true"\<close> and
  \<^verbatim>\<open>"false"\<close> have no digit.
\<close>

fun parseInt10 :: "jsval \<Rightarrow> jsnum" where
  "parseInt10 (JStr s) = parseInt_str s"
| "parseInt10 (JNum n) = parseInt_num n"
| "parseInt10 v = NaN"

text \<open>
  \<^verbatim>\<open>parseFloat(s)\<close> on a string: the longest prefix, after white space, that is a
  StrDecimalLiteral: a sign, then \<^verbatim>\<open>Infinity\<close> or digits with an optional fraction and an
  optional exponent.
\<close>

definition exponent_part :: "string \<Rightarrow> int" where
  "exponent_part r =
     (if r \<noteq> [] \<and> (hd r = CHR ''e'' \<or> hd r = CHR ''E'') then
        (let e = tl r;
             eneg = (e \<noteq> [] \<and> hd e = CHR ''-'');
             e' = (if e \<noteq> [] \<and> (hd e = CHR ''-'' \<or> hd e = CHR ''+'') then tl e else e);
             eds = takeWhile is_digit e'
         in if eds = [] then 0 else if eneg then - int (dec_val eds) else int (dec_val eds))
      else 0)"

definition parseFloat_str :: "string \<Rightarrow> jsnum" where
  "parseFloat_str s =
     (let t = dropWhile is_space s;
          neg = (t \<noteq> [] \<and> hd t = CHR ''-'');
          u = (if t \<noteq> [] \<and> (hd t = CHR ''-'' \<or> hd t = CHR ''+'') then tl t else t);
          ip = takeWhile is_digit u;
          r1 = dropWhile is_digit u;
          dot = (r1 \<noteq> [] \<and> hd r1 = CHR ''.'');
          fp = (if dot then takeWhile is_digit (tl r1) else []);
          r2 = (if dot then dropWhile is_digit (tl r1) else r1);
          m = real (dec_val ip) + real (dec_val fp) / 10 ^ length fp;
          v = m * 10 powi exponent_part r2
      in if take 8 u = ''Infinity'' then (if neg then NInf else PInf)
         else if ip = [] \<and> fp = [] then NaN
         else if neg then Fin (- v) else Fin v)"

text \<open>\<^verbatim>\<open>parseFloat(v)\<close> on a value; \<^verbatim>\<open>String(x)\<close> of a number reads back as \<open>x\<close>.\<close>

fun parseFloat_val :: "jsval \<Rightarrow> jsnum" where
  "parseFloat_val (JStr s) = parseFloat_str s"
| "parseFloat_val (JNum n) = n"
| "parseFloat_val v = NaN"

subsection \<open>Object literals\<close>

text \<open>
  Setting a property keeps the position of a key that is already there and appends a new
  key; a literal with a spread is a sequence of such settings.
\<close>

primrec obj_set :: "string \<Rightarrow> jsval \<Rightarrow> obj \<Rightarrow> obj" where
  "obj_set k v [] = [(k, v)]"
| "obj_set k v (p # ps) = (if fst p = k then (k, v) # ps else p # obj_set k v ps)"

definition obj_spread :: "obj \<Rightarrow> obj \<Rightarrow> obj" where
  "obj_spread base ext = foldl (\<lambda>ob p. obj_set (fst p) (snd p) ob) base ext"

definition js_object :: "obj \<Rightarrow> obj" where
  "js_object props = obj_spread [] props"

text \<open>Reading a property: \<^verbatim>\<open>undefined\<close> when the object does not have it.\<close>

definition get :: "obj \<Rightarrow> string \<Rightarrow> jsval" where
  "get ob k = (case map_of ob k of None \<Rightarrow> JUndefined | Some v \<Rightarrow> v)"

section \<open>Dates\<close>

datatype error = RangeError

text \<open>
  A Date holds a time value: milliseconds since the epoch, or NaN (here \<open>None\<close>) for an
  invalid date. \<^verbatim>\<open>new Date(x)\<close> on a number clips it: a finite number of magnitude at
  most \<open>8.64 * 10^15\<close> is truncated to an integer, anything else is invalid.
\<close>

fun Date_of_num :: "jsnum \<Rightarrow> int option" where
  "Date_of_num (Fin r) = (if \<bar>r\<bar> \<le> 8640000000000000 then Some (trunc r) else None)"
| "Date_of_num n = None"

text \<open>
  The civil date of a day number (days since 1970-01-01) in the proleptic Gregorian
  calendar, by eras of 400 years that start on 1 March: the day of the era, the year of the
  era, the day of that year, and the month counted from March.
\<close>

definition era :: "int \<Rightarrow> int" where
  "era days = (days + 719468) div 146097"

definition doe :: "int \<Rightarrow> int" where
  "doe days = days + 719468 - era days * 146097"

definition yoe :: "int \<Rightarrow> int" where
  "yoe days = (doe days - doe days div 1460 + doe days div 36524 - doe days div 146096) div 365"

definition doy :: "int \<Rightarrow> int" where
  "doy days = doe days - (365 * yoe days + yoe days div 4 - yoe days div 100)"

definition mp :: "int \<Rightarrow> int" where
  "mp days = (5 * doy days + 2) div 153"

definition MonthFromDay :: "int \<Rightarrow> int" where
  "MonthFromDay days = (if mp days < 10 then mp days + 3 else mp days - 9)"

definition DateFromDay :: "int \<Rightarrow> int" where
  "DateFromDay days = doy days - (153 * mp days + 2) div 5 + 1"

definition YearFromDay :: "int \<Rightarrow> int" where
  "YearFromDay days = yoe days + era days * 400 + (if MonthFromDay days \<le> 2 then 1 else 0)"

text \<open>The day number of a civil date (MakeDay).\<close>

definition days_from_civil :: "int \<Rightarrow> int \<Rightarrow> int \<Rightarrow> int" where
  "days_from_civil y m d =
     (let y' = (if m \<le> 2 then y - 1 else y);
          era = y' div 400;
          yoe = y' - era * 400;
          doy = (153 * (if m > 2 then m - 3 else m + 9) + 2) div 5 + d - 1;
          doe = yoe * 365 + yoe div 4 - yoe div 100 + doy
      in era * 146097 + doe - 719468)"

text \<open>
  The year of \<^verbatim>\<open>toISOString\<close>: four digits from 0 to 9999, otherwise a sign and six
  digits.
\<close>

definition iso_year :: "int \<Rightarrow> string" where
  "iso_year y =
     (if 0 \<le> y \<and> y \<le> 9999 then padStart0 4 (show_int y)
      else if y < 0 then CHR ''-'' # padStart0 6 (show_int (- y))
      else CHR ''+'' # padStart0 6 (show_int y))"

text \<open>\<^verbatim>\<open>Date.prototype.toISOString\<close> on a valid time value: \<^verbatim>\<open>YYYY-MM-DDTHH:mm:ss.sssZ\<close>.\<close>

definition toISOString :: "int \<Rightarrow> string" where
  "toISOString t =
     iso_year (YearFromDay (t div 86400000)) @ ''-''
     @ padStart0 2 (show_int (MonthFromDay (t div 86400000))) @ ''-''
     @ padStart0 2 (show_int (DateFromDay (t div 86400000))) @ ''T''
     @ padStart0 2 (show_int (t mod 86400000 div 3600000)) @ '':''
     @ padStart0 2 (show_int (t mod 86400000 div 60000 mod 60)) @ '':''
     @ padStart0 2 (show_int (t mod 86400000 div 1000 mod 60)) @ ''.''
     @ padStart0 3 (show_int (t mod 86400000 mod 1000)) @ ''Z''"

text \<open>\<^verbatim>\<open>toISOString\<close> throws a RangeError on an invalid date.\<close>

definition Date_toISOString :: "int option \<Rightarrow> error + string" where
  "Date_toISOString d = (case d of None \<Rightarrow> Inl RangeError | Some t \<Rightarrow> Inr (toISOString t))"

text \<open>
  The date-time string format of ECMA-262 with the UTC designator,
  \<^verbatim>\<open>YYYY-MM-DDTHH:mm:ss.sssZ\<close> or \<^verbatim>\<open>YYYY-MM-DDTHH:mm:ssZ\<close>, and the time value the
  standard gives a string of that format. \<open>None\<close> says that the string is not of the format,
  not that it is an invalid date: what \<^verbatim>\<open>Date.parse\<close> makes of any other string (a date
  without a time, a day the month does not have, an offset, a date in words) is left to
  the engine.
\<close>

definition days_in_month :: "int \<Rightarrow> int \<Rightarrow> int" where
  "days_in_month y m =
     (if m = 2 then (if y mod 4 = 0 \<and> (y mod 100 \<noteq> 0 \<or> y mod 400 = 0) then 29 else 28)
      else if m = 4 \<or> m = 6 \<or> m = 9 \<or> m = 11 then 30 else 31)"

definition num_field :: "string \<Rightarrow> nat \<Rightarrow> nat \<Rightarrow> int option" where
  "num_field s i n =
     (let f = take n (drop i s)
      in if length f = n \<and> list_all is_digit f then Some (int (dec_val f)) else None)"

definition utc_date_time :: "string \<Rightarrow> int option" where
  "utc_date_time s =
     (let shape = (length s = 20 \<or> length s = 24)
            \<and> s ! 4 = CHR ''-'' \<and> s ! 7 = CHR ''-'' \<and> s ! 10 = CHR ''T''
            \<and> s ! 13 = CHR '':'' \<and> s ! 16 = CHR '':'' \<and> last s = CHR ''Z''
            \<and> (if length s = 24 then s ! 19 = CHR ''.'' else True)
      in if \<not> shape then None
         else case (num_field s 0 4, num_field s 5 2, num_field s 8 2, num_field s 11 2, num_field s 14 2,
                    num_field s 17 2, if length s = 24 then num_field s 20 3 else Some 0) of
           (Some y, Some m, Some d, Some h, Some mi, Some sec, Some ms) \<Rightarrow>
             if 1 \<le> m \<and> m \<le> 12 \<and> 1 \<le> d \<and> d \<le> days_in_month y m
                \<and> h \<le> 23 \<and> mi \<le> 59 \<and> sec \<le> 59
             then Some (days_from_civil y m d * 86400000 + h * 3600000 + mi * 60000
                        + sec * 1000 + ms)
             else None
         | _ \<Rightarrow> None)"

text \<open>
  \<^verbatim>\<open>new Date(v)\<close> on a value: a string goes to the engine's \<^verbatim>\<open>Date.parse\<close>, here the
  parameter \<open>parse\<close>, which gives a time value or, for an invalid date, \<open>None\<close>; anything
  else is converted to a number.
\<close>

fun Date_new :: "(string \<Rightarrow> int option) \<Rightarrow> jsval \<Rightarrow> int option" where
  "Date_new parse (JStr s) = parse s"
| "Date_new parse (JNum n) = Date_of_num n"
| "Date_new parse JUndefined = None"
| "Date_new parse JNull = Some 0"
| "Date_new parse (JBool b) = Some (if b then 1 else 0)"

section \<open>Attribute bags\<close>

text \<open>
  The attribute bag of a record, as \<^verbatim>\<open>extractAttributesArray\<close> returns it: a plain
  object from attribute keys to decoded values.
\<close>

type_synonym attrs = "string \<rightharpoonup> jsval"

definition attr :: "attrs \<Rightarrow> string \<Rightarrow> jsval" where
  "attr a k = (case a k of None \<Rightarrow> JUndefined | Some v \<Rightarrow> v)"

text \<open>The attributes of these keys are all missing from the bag.\<close>

definition missing :: "attrs \<Rightarrow> string list \<Rightarrow> bool" where
  "missing a ks = list_all (\<lambda>k. a k = None) ks"

section \<open>Session keys\<close>

text \<open>
  \<^verbatim>\<open>generateSessionId\<close> as test/helpers.test.js has it:
  \<^verbatim>\<open>
  const timeWindow = new Date(timestamp).toISOString().substring(0, 13)
  return `${userId}-${timeWindow}`.replace(/[^a-zA-Z0-9-]/g, '-')
  \<close>
\<close>

definition is_key_char :: "char \<Rightarrow> bool" where
  "is_key_char c =
     (c \<in> set ''abcdefghijklmnopqrstuvwxyzABCDEFGHIJKLMNOPQRSTUVWXYZ0123456789-'')"

definition replace_non_key_chars :: "string \<Rightarrow> string" where
  "replace_non_key_chars s = map (\<lambda>c. if is_key_char c then c else CHR ''-'') s"

definition generateSessionId ::
  "(string \<Rightarrow> int option) \<Rightarrow> string \<Rightarrow> jsval \<Rightarrow> error + string" where
  "generateSessionId parse userId timestamp =
     (case Date_toISOString (Date_new parse timestamp) of
        Inl e \<Rightarrow> Inl e
      | Inr isoString \<Rightarrow> Inr (replace_non_key_chars (userId @ ''-'' @ take 13 isoString)))"

text \<open>
  The key as the specification words it: \<open>session.id\<close> if present, else
  \<open>sanitize(user.email) + "-" + iso_hour_of(timestamp)\<close>, where \<open>sanitize\<close> replaces any
  character outside \<open>[A-Za-z0-9-]\<close> with \<open>-\<close>. The class is written by its ranges of code
  units, and the ISO hour of a timestamp is its ISO 8601 date and time down to the hour,
  \<open>YYYY-MM-DDTHH\<close>, built from the year, the month, the day and the hour of that moment.
  Without \<open>session.id\<close> and \<open>user.email\<close> a record has no key.
\<close>

definition in_key_class :: "char \<Rightarrow> bool" where
  "in_key_class c =
     ((65 \<le> (of_char c :: nat) \<and> (of_char c :: nat) \<le> 90)
      \<or> (97 \<le> (of_char c :: nat) \<and> (of_char c :: nat) \<le> 122)
      \<or> (48 \<le> (of_char c :: nat) \<and> (of_char c :: nat) \<le> 57)
      \<or> (of_char c :: nat) = 45)"

definition sanitize :: "string \<Rightarrow> string" where
  "sanitize s = map (\<lambda>c. if in_key_class c then c else CHR ''-'') s"

definition iso_hour_of :: "int \<Rightarrow> string" where
  "iso_hour_of t =
     iso_year (YearFromDay (t div 86400000)) @ ''-''
     @ padStart0 2 (show_int (MonthFromDay (t div 86400000))) @ ''-''
     @ padStart0 2 (show_int (DateFromDay (t div 86400000))) @ ''T''
     @ padStart0 2 (show_int (t mod 86400000 div 3600000))"

definition string_attribute :: "attrs \<Rightarrow> string \<Rightarrow> string option" where
  "string_attribute a k = (case a k of Some (JStr s) \<Rightarrow> Some s | _ \<Rightarrow> None)"

definition spec_session_key :: "attrs \<Rightarrow> int \<Rightarrow> string option" where
  "spec_session_key a t =
     (case string_attribute a ''session.id'' of
        Some sid \<Rightarrow> Some sid
      | None \<Rightarrow>
          (case string_attribute a ''user.email'' of
             Some email \<Rightarrow> Some (sanitize email @ ''-'' @ iso_hour_of t)
           | None \<Rightarrow> None))"

section \<open>Sessions, the backend sink and the session's own methods\<close>

text \<open>One call of \<^verbatim>\<open>langfuse.event({name, traceId, input, output, metadata, level})\<close>.\<close>

record langfuse_event =
  ev_name :: string
  ev_traceId :: jsval
  ev_input :: obj
  ev_output :: obj
  ev_metadata :: obj
  ev_level :: string

text \<open>
  The session object, with the properties the two processors read or write. A counter is a
  number, or \<open>None\<close> while the property is not set; \<open>toolDecisions\<close> is an array or not set;
  \<open>currentTrace\<close> is \<open>Some id\<close> for a trace object with that \<^verbatim>\<open>id\<close>; \<open>langfuse\<close> is the
  backend client with the events it has received so far, or \<open>None\<close> without a client.

  Modelled from the spec: \<open>appVersion\<close>, \<open>apiCallCount\<close> and \<open>toolResultCount\<close>. The
  class that declares the session (src/sessionHandler.js) is not among the sources; the
  specification lists \<open>app_version\<close> with the identity fields and \<open>api_call_count\<close>,
  \<open>tool_result_count\<close> with the aggregates. The processors never touch these three.
\<close>

record session =
  sessionId :: jsval
  organizationId :: jsval
  userAccountUuid :: jsval
  userEmail :: jsval
  terminalType :: jsval
  appVersion :: jsval
  totalCost :: "jsnum option"
  apiCallCount :: "jsnum option"
  toolResultCount :: "jsnum option"
  commitCount :: "jsnum option"
  prCount :: "jsnum option"
  activeTime :: jsval
  sessionStarted :: jsval
  toolDecisions :: "obj list option"
  currentTrace :: "jsval option"
  langfuse :: "langfuse_event list option"

text \<open>An OTLP metric and one of its datapoints; \<open>dp_timeUnixNano\<close> is the field as a number.\<close>

record metric =
  name :: jsval

record dataPoint =
  asDouble :: jsval
  asInt :: jsval
  dp_timeUnixNano :: jsnum

text \<open>
  An OTLP log record: \<open>body\<close> is \<^verbatim>\<open>logRecord.body?.stringValue\<close>, \<open>attributes\<close> the raw
  attribute array, \<open>timeUnixNano\<close> the field as a number (NaN when it is missing).
\<close>

record 'a logRecord =
  body :: jsval
  attributes :: 'a
  timeUnixNano :: jsnum

text \<open>
  The methods of the session object that the processors call. They live in
  src/sessionHandler.js, which is not among the sources, so they are parameters of the
  model, as they are properties of the \<^verbatim>\<open>session\<close> argument in the code (the unit
  tests pass mocks). A method takes its arguments and the session, and returns the session
  as it leaves it; it is taken to return normally.
\<close>

record methods =
  handleUserPrompt :: "obj \<Rightarrow> jsval \<Rightarrow> session \<Rightarrow> session"
  handleApiRequest :: "obj \<Rightarrow> jsval \<Rightarrow> session \<Rightarrow> session"
  handleApiError :: "obj \<Rightarrow> jsval \<Rightarrow> session \<Rightarrow> session"
  handleToolResult :: "obj \<Rightarrow> jsval \<Rightarrow> session \<Rightarrow> session"
  session_processMetric :: "metric \<Rightarrow> dataPoint \<Rightarrow> attrs \<Rightarrow> session \<Rightarrow> session"

text \<open>\<^verbatim>\<open>x || 0\<close> on a counter.\<close>

definition or_zero :: "jsnum option \<Rightarrow> jsnum" where
  "or_zero c = (case c of None \<Rightarrow> Fin 0 | Some n \<Rightarrow> if truthy_num n then n else Fin 0)"

section \<open>The event processor (src/eventProcessor.js)\<close>

definition processUserPrompt ::
  "methods \<Rightarrow> attrs \<Rightarrow> obj \<Rightarrow> jsnum \<Rightarrow> session \<Rightarrow> session \<times> obj" where
  "processUserPrompt M attrs standardAttrs timestamp s =
     (let prompt = js_or (js_or (attr attrs ''prompt'') (attr attrs ''user.prompt'')) (JStr []);
          promptLength = parseInt10 (js_or (js_or (attr attrs ''prompt_length'')
                           (attr attrs ''prompt.length'')) (JStr ''0''));
          eventTimestamp = js_or (attr attrs ''event.timestamp'') (get standardAttrs ''timestamp'')
      in (handleUserPrompt M
            (js_object
              [(''prompt'', prompt),
               (''prompt_length'', JNum promptLength),
               (''user.email'', get standardAttrs ''userEmail''),
               (''event.timestamp'', eventTimestamp),
               (''session.id'', get standardAttrs ''sessionId''),
               (''organization.id'', get standardAttrs ''organizationId''),
               (''user.account_uuid'', get standardAttrs ''userAccountUuid''),
               (''terminal.type'', get standardAttrs ''terminalType''),
               (''app.version'', get standardAttrs ''appVersion'')])
            eventTimestamp s,
          obj_spread
            (js_object
              [(''type'', JStr ''user_prompt''),
               (''prompt'', prompt),
               (''promptLength'', JNum promptLength)])
            standardAttrs))"

definition processApiRequest ::
  "methods \<Rightarrow> attrs \<Rightarrow> obj \<Rightarrow> jsnum \<Rightarrow> session \<Rightarrow> session \<times> obj" where
  "processApiRequest M attrs standardAttrs timestamp s =
     (let model = js_or (js_or (attr attrs ''model'') (attr attrs ''model.name'')) (JStr ''unknown'');
          inputTokens = parseInt10 (js_or (js_or (attr attrs ''input_tokens'')
                          (attr attrs ''tokens.input'')) (JStr ''0''));
          outputTokens = parseInt10 (js_or (js_or (attr attrs ''output_tokens'')
                           (attr attrs ''tokens.output'')) (JStr ''0''));
          cacheReadTokens = parseInt10 (js_or (js_or (attr attrs ''cache_read_tokens'')
                              (attr attrs ''cache.read_tokens'')) (JStr ''0''));
          cacheCreationTokens = parseInt10 (js_or (js_or (attr attrs ''cache_creation_tokens'')
                                  (attr attrs ''cache.creation_tokens'')) (JStr ''0''));
          costUsd = parseFloat_val (js_or (js_or (js_or (attr attrs ''cost_usd'')
                      (attr attrs ''cost'')) (attr attrs ''cost.usd'')) (JStr ''0''));
          durationMs = parseInt10 (js_or (js_or (attr attrs ''duration_ms'')
                         (attr attrs ''duration'')) (JStr ''0''));
          requestId = js_or (attr attrs ''request_id'') (attr attrs ''request.id'');
          eventTimestamp = js_or (attr attrs ''event.timestamp'') (get standardAttrs ''timestamp'')
      in (handleApiRequest M
            (obj_spread
              (js_object
                [(''model'', model),
                 (''input_tokens'', JNum inputTokens),
                 (''output_tokens'', JNum outputTokens),
                 (''cache_read_tokens'', JNum cacheReadTokens),
                 (''cache_creation_tokens'', JNum cacheCreationTokens),
                 (''cost'', JNum costUsd),
                 (''duration_ms'', JNum durationMs),
                 (''api.response_time'', JNum durationMs),
                 (''request_id'', requestId),
                 (''event.timestamp'', eventTimestamp)])
              standardAttrs)
            eventTimestamp s,
          obj_spread
            (js_object
              [(''type'', JStr ''api_request''),
               (''model'', model),
               (''inputTokens'', JNum inputTokens),
               (''outputTokens'', JNum outputTokens),
               (''cacheReadTokens'', JNum cacheReadTokens),
               (''cacheCreationTokens'', JNum cacheCreationTokens),
               (''costUsd'', JNum costUsd),
               (''durationMs'', JNum durationMs),
               (''requestId'', requestId)])
            standardAttrs))"

definition processApiError ::
  "methods \<Rightarrow> attrs \<Rightarrow> obj \<Rightarrow> jsnum \<Rightarrow> session \<Rightarrow> session \<times> obj" where
  "processApiError M attrs standardAttrs timestamp s =
     (let errorMessage = js_or (js_or (js_or (attr attrs ''error_message'') (attr attrs ''error''))
                           (attr attrs ''message'')) (JStr ''Unknown error'');
          statusCode = parseInt10 (js_or (js_or (attr attrs ''status_code'')
                         (attr attrs ''status'')) (JStr ''0''));
          model = js_or (attr attrs ''model'') (JStr ''unknown'');
          requestId = js_or (attr attrs ''request_id'') (attr attrs ''request.id'');
          eventTimestamp = js_or (attr attrs ''event.timestamp'') (get standardAttrs ''timestamp'')
      in (handleApiError M
            (obj_spread
              (js_object
                [(''error_message'', errorMessage),
                 (''status_code'', JNum statusCode),
                 (''model'', model),
                 (''request_id'', requestId),
                 (''event.timestamp'', eventTimestamp)])
              standardAttrs)
            eventTimestamp s,
          obj_spread
            (js_object
              [(''type'', JStr ''api_error''),
               (''errorMessage'', errorMessage),
               (''statusCode'', JNum statusCode),
               (''model'', model),
               (''requestId'', requestId)])
            standardAttrs))"

definition processToolResult ::
  "methods \<Rightarrow> attrs \<Rightarrow> obj \<Rightarrow> jsnum \<Rightarrow> session \<Rightarrow> session \<times> obj" where
  "processToolResult M attrs standardAttrs timestamp s =
     (let toolName = js_or (js_or (js_or (attr attrs ''tool_name'') (attr attrs ''tool''))
                       (attr attrs ''name'')) (JStr ''unknown'');
          success = (attr attrs ''success'' = JStr ''true'' \<or> attr attrs ''success'' = JBool True);
          durationMs = parseInt10 (js_or (js_or (attr attrs ''duration_ms'')
                         (attr attrs ''duration'')) (JStr ''0''));
          eventTimestamp = js_or (attr attrs ''event.timestamp'') (get standardAttrs ''timestamp'')
      in (handleToolResult M
            (obj_spread
              (js_object
                [(''tool_name'', toolName),
                 (''success'', JBool success),
                 (''duration_ms'', JNum durationMs),
                 (''event.timestamp'', eventTimestamp)])
              standardAttrs)
            eventTimestamp s,
          obj_spread
            (js_object
              [(''type'', JStr ''tool_result''),
               (''toolName'', toolName),
               (''success'', JBool success),
               (''durationMs'', JNum durationMs)])
            standardAttrs))"

text \<open>
  The tool decision of a log record calls no method of the session: it sends one event to
  the backend when the session has a current trace and a backend client, and nothing else.
  Its two object literals are the event and the object returned.
\<close>

definition tool_permission_decision_event :: "attrs \<Rightarrow> obj \<Rightarrow> jsval \<Rightarrow> langfuse_event" where
  "tool_permission_decision_event attrs standardAttrs traceId =
     (let decision = js_or (attr attrs ''decision'') (JStr ''unknown'');
          source = js_or (attr attrs ''source'') (JStr ''unknown'');
          toolName = js_or (js_or (attr attrs ''tool_name'') (attr attrs ''tool'')) (JStr ''unknown'');
          eventTimestamp = js_or (attr attrs ''event.timestamp'') (get standardAttrs ''timestamp'')
      in \<lparr>ev_name = ''tool-permission-decision'',
          ev_traceId = traceId,
          ev_input = js_object [(''tool'', toolName), (''source'', source)],
          ev_output = js_object [(''decision'', decision)],
          ev_metadata = obj_spread
            (js_object
              [(''tool'', toolName),
               (''decision'', decision),
               (''source'', source),
               (''timestamp'', eventTimestamp)])
            standardAttrs,
          ev_level = (if decision = JStr ''accept'' then ''DEFAULT'' else ''WARNING'')\<rparr>)"

definition tool_decision_result :: "attrs \<Rightarrow> obj \<Rightarrow> obj" where
  "tool_decision_result attrs standardAttrs =
     obj_spread
       (js_object
         [(''type'', JStr ''tool_decision''),
          (''decision'', js_or (attr attrs ''decision'') (JStr ''unknown'')),
          (''source'', js_or (attr attrs ''source'') (JStr ''unknown'')),
          (''toolName'', js_or (js_or (attr attrs ''tool_name'') (attr attrs ''tool''))
             (JStr ''unknown''))])
       standardAttrs"

definition processToolDecision ::
  "attrs \<Rightarrow> obj \<Rightarrow> jsnum \<Rightarrow> session \<Rightarrow> session \<times> obj" where
  "processToolDecision attrs standardAttrs timestamp s =
     (case (currentTrace s, langfuse s) of
        (Some traceId, Some events) \<Rightarrow>
          (s\<lparr>langfuse := Some (events @
               [tool_permission_decision_event attrs standardAttrs traceId])\<rparr>,
           tool_decision_result attrs standardAttrs)
      | _ \<Rightarrow> (s, tool_decision_result attrs standardAttrs))"

text \<open>The standard attributes of a record, with the ISO rendering of its time.\<close>

definition standardAttrs_of :: "attrs \<Rightarrow> session \<Rightarrow> string \<Rightarrow> obj" where
  "standardAttrs_of attrs s isoString =
     js_object
       [(''sessionId'', js_or (attr attrs ''session.id'') (sessionId s)),
        (''organizationId'', attr attrs ''organization.id''),
        (''userAccountUuid'', attr attrs ''user.account_uuid''),
        (''userEmail'', attr attrs ''user.email''),
        (''terminalType'', attr attrs ''terminal.type''),
        (''appVersion'', attr attrs ''app.version''),
        (''timestamp'', JStr isoString)]"

text \<open>
  \<^verbatim>\<open>if (standardAttrs.x && !session.x) session.x = standardAttrs.x\<close>, for the four
  properties the processor stores.
\<close>

definition store_if_absent :: "jsval \<Rightarrow> jsval \<Rightarrow> jsval" where
  "store_if_absent new old = (if truthy new \<and> \<not> truthy old then new else old)"

definition storeStandardAttrs :: "obj \<Rightarrow> session \<Rightarrow> session" where
  "storeStandardAttrs standardAttrs s =
     s\<lparr>organizationId := store_if_absent (get standardAttrs ''organizationId'') (organizationId s),
       userAccountUuid := store_if_absent (get standardAttrs ''userAccountUuid'') (userAccountUuid s),
       userEmail := store_if_absent (get standardAttrs ''userEmail'') (userEmail s),
       terminalType := store_if_absent (get standardAttrs ''terminalType'') (terminalType s)\<rparr>"

text \<open>
  \<^verbatim>\<open>processEvent(logRecord, resource, session)\<close>. Building the standard attributes
  renders the time of the record with \<^verbatim>\<open>toISOString\<close>, which throws on an invalid date,
  before anything is stored. An unknown event name returns \<^verbatim>\<open>null\<close>, here \<open>None\<close>.
\<close>

definition returned :: "session \<times> obj \<Rightarrow> session \<times> (error + obj option)" where
  "returned r = (fst r, Inr (Some (snd r)))"

definition processEvent ::
  "('a \<Rightarrow> attrs) \<Rightarrow> methods \<Rightarrow> 'a logRecord \<Rightarrow> 'r \<Rightarrow> session
     \<Rightarrow> session \<times> (error + obj option)" where
  "processEvent extractAttributesArray M logRecord resource s =
     (case Date_toISOString (Date_of_num (js_div_pos (timeUnixNano logRecord) 1000000)) of
        Inl e \<Rightarrow> (s, Inl e)
      | Inr isoString \<Rightarrow>
          (let eventName = body logRecord;
               attrs = extractAttributesArray (attributes logRecord);
               timestamp = js_div_pos (timeUnixNano logRecord) 1000000;
               standardAttrs = standardAttrs_of attrs s isoString;
               s1 = storeStandardAttrs standardAttrs s
           in if eventName = JStr ''claude_code.user_prompt'' then
                returned (processUserPrompt M attrs standardAttrs timestamp s1)
              else if eventName = JStr ''claude_code.api_request'' then
                returned (processApiRequest M attrs standardAttrs timestamp s1)
              else if eventName = JStr ''claude_code.api_error'' then
                returned (processApiError M attrs standardAttrs timestamp s1)
              else if eventName = JStr ''claude_code.tool_result'' then
                returned (processToolResult M attrs standardAttrs timestamp s1)
              else if eventName = JStr ''claude_code.tool_decision'' then
                returned (processToolDecision attrs standardAttrs timestamp s1)
              else (s1, Inr None)))"

section \<open>The metrics processor (src/metricsProcessor.js)\<close>

text \<open>
  Cost, tokens and lines of code: the processor only reads the datapoint and reports; the
  aggregates are left to the session's own \<^verbatim>\<open>processMetric\<close>.
\<close>

definition processCostMetric :: "dataPoint \<Rightarrow> attrs \<Rightarrow> jsnum \<Rightarrow> session \<Rightarrow> session \<times> obj" where
  "processCostMetric dp attrs timestamp s =
     (let cost = js_or (asDouble dp) (JNum (Fin 0));
          model = js_or (attr attrs ''model'') (JStr ''unknown'')
      in (s, js_object
               [(''type'', JStr ''cost''),
                (''cost'', cost),
                (''model'', model),
                (''timestamp'', JNum timestamp)]))"

definition processTokenMetric :: "dataPoint \<Rightarrow> attrs \<Rightarrow> jsnum \<Rightarrow> session \<Rightarrow> session \<times> obj" where
  "processTokenMetric dp attrs timestamp s =
     (let tokens = js_or (asDouble dp) (JNum (Fin 0));
          tokenType = js_or (attr attrs ''type'') (JStr ''unknown'');
          model = js_or (attr attrs ''model'') (JStr ''unknown'')
      in (s, js_object
               [(''type'', JStr ''token''),
                (''tokens'', tokens),
                (''tokenType'', tokenType),
                (''model'', model),
                (''timestamp'', JNum timestamp)]))"

definition processLinesOfCodeMetric ::
  "dataPoint \<Rightarrow> attrs \<Rightarrow> jsnum \<Rightarrow> session \<Rightarrow> session \<times> obj" where
  "processLinesOfCodeMetric dp attrs timestamp s =
     (let lines = js_or (asDouble dp) (JNum (Fin 0));
          changeType = js_or (attr attrs ''type'') (JStr ''unknown'')
      in (s, js_object
               [(''type'', JStr ''lines_of_code''),
                (''lines'', lines),
                (''changeType'', changeType),
                (''timestamp'', JNum timestamp)]))"

text \<open>
  \<^verbatim>\<open>parseInt(dataPoint.asInt || dataPoint.asDouble || '0', 10)\<close>, the increment of the
  commit and pull-request counters.
\<close>

definition count_increment :: "dataPoint \<Rightarrow> jsnum" where
  "count_increment dp = parseInt10 (js_or (js_or (asInt dp) (asDouble dp)) (JStr ''0''))"

definition processCommitMetric :: "dataPoint \<Rightarrow> attrs \<Rightarrow> jsnum \<Rightarrow> session \<Rightarrow> session \<times> obj" where
  "processCommitMetric dp attrs timestamp s =
     (let commits = count_increment dp
      in (s\<lparr>commitCount := Some (js_add (or_zero (commitCount s)) commits)\<rparr>,
          js_object
            [(''type'', JStr ''commit''),
             (''commits'', JNum commits),
             (''timestamp'', JNum timestamp)]))"

text \<open>
  The tool decision of a metric. Its three object literals: the entry pushed to
  \<^verbatim>\<open>session.toolDecisions\<close>, the event sent to the backend, and the object returned.
\<close>

definition code_edit_decision_entry :: "dataPoint \<Rightarrow> attrs \<Rightarrow> jsnum \<Rightarrow> obj" where
  "code_edit_decision_entry dp attrs timestamp =
     js_object
       [(''decision'', js_or (attr attrs ''decision'') (JStr ''unknown'')),
        (''tool'', js_or (attr attrs ''tool'') (JStr ''unknown'')),
        (''language'', js_or (attr attrs ''language'') (JStr ''unknown'')),
        (''count'', js_or (js_or (asDouble dp) (asInt dp)) (JNum (Fin 1))),
        (''timestamp'', JNum timestamp)]"

definition code_edit_decision_event ::
  "dataPoint \<Rightarrow> attrs \<Rightarrow> jsval \<Rightarrow> string \<Rightarrow> langfuse_event" where
  "code_edit_decision_event dp attrs traceId isoString =
     (let decision = js_or (attr attrs ''decision'') (JStr ''unknown'');
          tool = js_or (attr attrs ''tool'') (JStr ''unknown'');
          language = js_or (attr attrs ''language'') (JStr ''unknown'');
          count = js_or (js_or (asDouble dp) (asInt dp)) (JNum (Fin 1))
      in \<lparr>ev_name = ''code-edit-decision'',
          ev_traceId = traceId,
          ev_input = js_object [(''tool'', tool), (''language'', language)],
          ev_output = js_object [(''decision'', decision), (''count'', count)],
          ev_metadata = js_object
            [(''tool'', tool),
             (''decision'', decision),
             (''language'', language),
             (''count'', count),
             (''timestamp'', JStr isoString)],
          ev_level = (if decision = JStr ''accept'' then ''DEFAULT'' else ''WARNING'')\<rparr>)"

definition code_edit_decision_result :: "dataPoint \<Rightarrow> attrs \<Rightarrow> jsnum \<Rightarrow> obj" where
  "code_edit_decision_result dp attrs timestamp =
     js_object
       [(''type'', JStr ''tool_decision''),
        (''decision'', js_or (attr attrs ''decision'') (JStr ''unknown'')),
        (''tool'', js_or (attr attrs ''tool'') (JStr ''unknown'')),
        (''language'', js_or (attr attrs ''language'') (JStr ''unknown'')),
        (''count'', js_or (js_or (asDouble dp) (asInt dp)) (JNum (Fin 1))),
        (''timestamp'', JNum timestamp)]"

text \<open>
  The entry is pushed first, on a list that is created when the session has none. The
  event is built only with a current trace and a backend client, and rendering its time
  throws on an invalid date, after the push.
\<close>

definition processToolDecisionMetric ::
  "dataPoint \<Rightarrow> attrs \<Rightarrow> jsnum \<Rightarrow> session \<Rightarrow> session \<times> (error + obj)" where
  "processToolDecisionMetric dp attrs timestamp s =
     (let s1 = s\<lparr>toolDecisions := Some
                 ((case toolDecisions s of None \<Rightarrow> [] | Some ds \<Rightarrow> ds) @
                  [code_edit_decision_entry dp attrs timestamp])\<rparr>
      in case (currentTrace s1, langfuse s1) of
           (Some traceId, Some events) \<Rightarrow>
             (case Date_toISOString (Date_of_num timestamp) of
                Inl e \<Rightarrow> (s1, Inl e)
              | Inr isoString \<Rightarrow>
                  (s1\<lparr>langfuse := Some (events @
                      [code_edit_decision_event dp attrs traceId isoString])\<rparr>,
                   Inr (code_edit_decision_result dp attrs timestamp)))
         | _ \<Rightarrow> (s1, Inr (code_edit_decision_result dp attrs timestamp)))"

text \<open>
  The session start: the flag is set, then the log line renders the time, which throws on
  an invalid date.
\<close>

definition processSessionMetric ::
  "dataPoint \<Rightarrow> attrs \<Rightarrow> jsnum \<Rightarrow> session \<Rightarrow> session \<times> (error + obj)" where
  "processSessionMetric dp attrs timestamp s =
     (case Date_toISOString (Date_of_num timestamp) of
        Inl e \<Rightarrow> (s\<lparr>sessionStarted := JBool True\<rparr>, Inl e)
      | Inr isoString \<Rightarrow>
          (s\<lparr>sessionStarted := JBool True\<rparr>,
           Inr (js_object [(''type'', JStr ''session_start''), (''timestamp'', JNum timestamp)])))"

definition processActiveTimeMetric ::
  "dataPoint \<Rightarrow> attrs \<Rightarrow> jsnum \<Rightarrow> session \<Rightarrow> session \<times> obj" where
  "processActiveTimeMetric dp attrs timestamp s =
     (let activeTime' = js_or (asDouble dp) (JNum (Fin 0))
      in (s\<lparr>activeTime := activeTime'\<rparr>,
          js_object
            [(''type'', JStr ''active_time''),
             (''activeTime'', activeTime'),
             (''timestamp'', JNum timestamp)]))"

definition processPullRequestMetric ::
  "dataPoint \<Rightarrow> attrs \<Rightarrow> jsnum \<Rightarrow> session \<Rightarrow> session \<times> obj" where
  "processPullRequestMetric dp attrs timestamp s =
     (let prCount' = count_increment dp
      in (s\<lparr>prCount := Some (js_add (or_zero (prCount s)) prCount')\<rparr>,
          js_object
            [(''type'', JStr ''pull_request''),
             (''prCount'', JNum prCount'),
             (''timestamp'', JNum timestamp)]))"

text \<open>
  \<^verbatim>\<open>processMetric(metric, dataPoint, attrs, session)\<close>: the session's own
  \<^verbatim>\<open>processMetric\<close> runs first, on every metric; then the name is dispatched. An unknown
  name returns \<^verbatim>\<open>null\<close>, here \<open>None\<close>.
\<close>

definition thrown_or_returned :: "session \<times> (error + obj) \<Rightarrow> session \<times> (error + obj option)" where
  "thrown_or_returned r = (fst r, case snd r of Inl e \<Rightarrow> Inl e | Inr ob \<Rightarrow> Inr (Some ob))"

definition processMetric ::
  "methods \<Rightarrow> metric \<Rightarrow> dataPoint \<Rightarrow> attrs \<Rightarrow> session \<Rightarrow> session \<times> (error + obj option)" where
  "processMetric M metric dp attrs s =
     (let metricName = name metric;
          timestamp = js_div_pos (dp_timeUnixNano dp) 1000000;
          s1 = session_processMetric M metric dp attrs s
      in if metricName = JStr ''claude_code.cost.usage'' then
           returned (processCostMetric dp attrs timestamp s1)
         else if metricName = JStr ''claude_code.token.usage'' then
           returned (processTokenMetric dp attrs timestamp s1)
         else if metricName = JStr ''claude_code.lines_of_code.count'' then
           returned (processLinesOfCodeMetric dp attrs timestamp s1)
         else if metricName = JStr ''claude_code.commit.count'' then
           returned (processCommitMetric dp attrs timestamp s1)
         else if metricName = JStr ''claude_code.code_edit_tool.decision'' then
           thrown_or_returned (processToolDecisionMetric dp attrs timestamp s1)
         else if metricName = JStr ''claude_code.session.count'' then
           thrown_or_returned (processSessionMetric dp attrs timestamp s1)
         else if metricName = JStr ''claude_code.active_time.total'' then
           returned (processActiveTimeMetric dp attrs timestamp s1)
         else if metricName = JStr ''claude_code.pr.count''
                 \<or> metricName = JStr ''claude_code.pull_request.count'' then
           returned (processPullRequestMetric dp attrs timestamp s1)
         else (s1, Inr None))"

text \<open>The event names and the metric names the two dispatchers know.\<close>

definition recognized_events :: "jsval list" where
  "recognized_events =
     [JStr ''claude_code.user_prompt'', JStr ''claude_code.api_request'',
      JStr ''claude_code.api_error'', JStr ''claude_code.tool_result'',
      JStr ''claude_code.tool_decision'']"

definition recognized_metrics :: "jsval list" where
  "recognized_metrics =
     [JStr ''claude_code.cost.usage'', JStr ''claude_code.token.usage'',
      JStr ''claude_code.lines_of_code.count'', JStr ''claude_code.commit.count'',
      JStr ''claude_code.code_edit_tool.decision'', JStr ''claude_code.session.count'',
      JStr ''claude_code.active_time.total'', JStr ''claude_code.pr.count'',
      JStr ''claude_code.pull_request.count'']"

section \<open>Streams of records\<close>

text \<open>
  A session receives log records and metric datapoints one after the other. Whatever a
  record returns or throws, the session it leaves behind is the one the next record meets.
\<close>

datatype ('a, 'r) ingest = Log "'a logRecord" 'r | Metric metric dataPoint attrs

fun ingest_record ::
  "('a \<Rightarrow> attrs) \<Rightarrow> methods \<Rightarrow> ('a, 'r) ingest \<Rightarrow> session \<Rightarrow> session" where
  "ingest_record X M (Log logRecord resource) s = fst (processEvent X M logRecord resource s)"
| "ingest_record X M (Metric metric dp attrs) s = fst (processMetric M metric dp attrs s)"

fun ingest_all ::
  "('a \<Rightarrow> attrs) \<Rightarrow> methods \<Rightarrow> ('a, 'r) ingest list \<Rightarrow> session \<Rightarrow> session" where
  "ingest_all X M [] s = s"
| "ingest_all X M (r # rs) s = ingest_all X M rs (ingest_record X M r s)"

text \<open>
  An aggregate does not decrease from one value of a counter to the next, read as the code
  reads a counter (\<^verbatim>\<open>x || 0\<close>) and compared as JavaScript compares numbers.
\<close>

definition nondecreasing :: "jsnum option \<Rightarrow> jsnum option \<Rightarrow> bool" where
  "nondecreasing a b = js_le (or_zero a) (or_zero b)"

definition aggregates_nondecreasing :: "session \<Rightarrow> session \<Rightarrow> bool" where
  "aggregates_nondecreasing s s' =
     (nondecreasing (totalCost s) (totalCost s') \<and>
      nondecreasing (apiCallCount s) (apiCallCount s') \<and>
      nondecreasing (toolResultCount s) (toolResultCount s') \<and>
      nondecreasing (commitCount s) (commitCount s') \<and>
      nondecreasing (prCount s) (prCount s'))"

text \<open>The increment of a commit or pull-request datapoint is a number that is not negative.\<close>

fun increment_not_negative :: "('a, 'r) ingest \<Rightarrow> bool" where
  "increment_not_negative (Log logRecord resource) = True"
| "increment_not_negative (Metric metric dp attrs) =
     (if name metric = JStr ''claude_code.commit.count''
         \<or> name metric = JStr ''claude_code.pr.count''
         \<or> name metric = JStr ''claude_code.pull_request.count''
      then js_le (Fin 0) (count_increment dp) else True)"

text \<open>The identity of a session.\<close>

definition identity_of :: "session \<Rightarrow> jsval list" where
  "identity_of s = [organizationId s, userAccountUuid s, userEmail s, terminalType s, appVersion s]"

text \<open>The mocks of the unit tests: a session whose methods do nothing.\<close>

definition mock_methods :: methods where
  "mock_methods =
     \<lparr>handleUserPrompt = (\<lambda>args ts s. s),
      handleApiRequest = (\<lambda>args ts s. s),
      handleApiError = (\<lambda>args ts s. s),
      handleToolResult = (\<lambda>args ts s. s),
      session_processMetric = (\<lambda>m dp a s. s)\<rparr>"

text \<open>A time every example uses: 2024-01-15T10:30:45.123Z in nanoseconds.\<close>

definition example_time :: jsnum where
  "example_time = Fin 1705314645123000000"

definition mock_session :: session where
  "mock_session =
     \<lparr>sessionId = JStr ''test-session-123'',
      organizationId = JUndefined,
      userAccountUuid = JUndefined,
      userEmail = JNull,
      terminalType = JUndefined,
      appVersion = JUndefined,
      totalCost = Some (Fin 0),
      apiCallCount = None,
      toolResultCount = None,
      commitCount = Some (Fin 0),
      prCount = Some (Fin 0),
      activeTime = JNum (Fin 0),
      sessionStarted = JUndefined,
      toolDecisions = None,
      currentTrace = None,
      langfuse = None\<rparr>"

section \<open>Facts about the JavaScript layer\<close>

lemma digit_char_is_digit: "d < 10 \<Longrightarrow> is_digit (digit_char d)"
proof -
  assume "d < 10"
  then have "d \<in> {0, 1, 2, 3, 4, 5, 6, 7, 8, 9}" by auto
  then show ?thesis by (auto simp: is_digit_def digit_char_def)
qed

lemma show_nat_digits: "list_all is_digit (show_nat n)"
proof (induction n rule: show_nat.induct)
  case (1 n)
  show ?case
  proof (cases "n < 10")
    case True
    then show ?thesis by (subst show_nat.simps) (simp add: digit_char_is_digit)
  next
    case False
    with "1" show ?thesis by (subst show_nat.simps) (simp add: digit_char_is_digit)
  qed
qed

lemma show_nat_numerals:
  "show_nat 0 = ''0''" "show_nat (Suc 0) = ''1''" "show_nat 1 = ''1''" "show_nat 10 = ''10''"
  "show_nat 15 = ''15''" "show_nat 30 = ''30''" "show_nat 45 = ''45''" "show_nat 123 = ''123''"
  "show_nat 2024 = ''2024''"
  by (simp_all add: show_nat.simps digit_char_def)

lemma digit_is_key_char: "is_digit c \<Longrightarrow> is_key_char c"
  by (auto simp: is_digit_def is_key_char_def)

lemma key_chars: "is_key_char CHR ''-''" "is_key_char CHR ''0''" "is_key_char CHR ''T''"
  by (simp_all add: is_key_char_def)

lemma show_nat_key_chars: "list_all is_key_char (show_nat n)"
  using show_nat_digits [of n] by (simp add: list_all_iff digit_is_key_char)

lemma show_int_key_chars: "list_all is_key_char (show_int i)"
  by (simp add: show_int_def show_nat_key_chars key_chars)

lemma padStart0_key_chars: "list_all is_key_char s \<Longrightarrow> list_all is_key_char (padStart0 n s)"
  by (auto simp: padStart0_def list_all_iff key_chars)

lemma length_padStart0: "n \<le> length (padStart0 n s)"
  by (simp add: padStart0_def)

lemma iso_year_key_chars: "y \<le> 9999 \<Longrightarrow> list_all is_key_char (iso_year y)"
  by (simp add: iso_year_def padStart0_key_chars show_int_key_chars key_chars)

lemma length_iso_year: "4 \<le> length (iso_year y)"
  using length_padStart0 [of 4 "show_int y"] length_padStart0 [of 6 "show_int (- y)"]
    length_padStart0 [of 6 "show_int y"]
  by (simp add: iso_year_def)

text \<open>The class of the code, a list of characters, is the class of the specification.\<close>

lemma key_class: "is_key_char c = in_key_class c"
proof -
  have "is_key_char c \<longleftrightarrow> (of_char c :: nat) \<in> of_char `
      set ''abcdefghijklmnopqrstuvwxyzABCDEFGHIJKLMNOPQRSTUVWXYZ0123456789-''"
    unfolding is_key_char_def
    by (rule inj_image_mem_iff [symmetric]) (rule inj_of_char)
  also have "\<dots> \<longleftrightarrow> in_key_class c"
    unfolding in_key_class_def list.set image_insert image_empty insert_iff empty_iff
    by simp arith
  finally show ?thesis .
qed

subsection \<open>The fields of a date\<close>

text \<open>
  Bounds on the civil date of any day number, wide enough to know how many digits each
  field takes.
\<close>

lemma doe_bounds: "0 \<le> doe d" "doe d \<le> 146096"
proof -
  have "doe d = (d + 719468) mod 146097"
    by (simp add: doe_def era_def minus_div_mult_eq_mod)
  then show "0 \<le> doe d" "doe d \<le> 146096" by simp_all
qed

lemma yoe_bounds: "0 \<le> yoe d" "yoe d \<le> 400"
  using doe_bounds [of d] unfolding yoe_def by arith+

lemma doy_bounds: "- 104 \<le> doy d" "doy d \<le> 470"
  using doe_bounds [of d] unfolding doy_def yoe_def by arith+

lemma mp_bounds: "- 4 \<le> mp d" "mp d \<le> 15"
  using doy_bounds [of d] unfolding mp_def by arith+

lemma MonthFromDay_bounds: "- 1 \<le> MonthFromDay d" "MonthFromDay d \<le> 12"
  using mp_bounds [of d] by (simp_all add: MonthFromDay_def)

lemma DateFromDay_bounds: "1 \<le> DateFromDay d" "DateFromDay d \<le> 31"
  unfolding DateFromDay_def mp_def by arith+

lemma hour_bounds: "0 \<le> t mod 86400000 div 3600000" "t mod 86400000 div 3600000 \<le> (23::int)"
  by arith+

subsection \<open>The width of a field\<close>

lemma length_show_nat: "n < 10 ^ k \<Longrightarrow> 0 < k \<Longrightarrow> length (show_nat n) \<le> k"
proof (induction n arbitrary: k rule: show_nat.induct)
  case (1 n)
  show ?case
  proof (cases "n < 10")
    case True
    with "1.prems" show ?thesis by (subst show_nat.simps) simp
  next
    case False
    with "1.prems" obtain j where k: "k = Suc j" and j: "0 < j"
      by (cases k; cases "k - 1") auto
    from "1.prems" k have "n div 10 < 10 ^ j"
      by (simp add: less_mult_imp_div_less mult.commute)
    with "1.IH" [OF False _ j] have "length (show_nat (n div 10)) \<le> j" .
    with False k show ?thesis by (subst show_nat.simps) simp
  qed
qed

lemma show_nat_nonempty: "0 < length (show_nat n)"
  by (subst show_nat.simps) simp

lemma length_padStart0_eq: "length (padStart0 n s) = max n (length s)"
  by (simp add: padStart0_def)

lemma two_digits: "- 9 \<le> i \<Longrightarrow> i \<le> 99 \<Longrightarrow> length (padStart0 2 (show_int i)) = 2"
proof -
  assume range: "- 9 \<le> i" "i \<le> 99"
  have "length (show_int i) \<le> 2"
  proof (cases "i < 0")
    case True
    with range have "nat (- i) < 10 ^ 1" by simp
    then have "length (show_nat (nat (- i))) \<le> 1" by (rule length_show_nat) simp
    with True show ?thesis by (simp add: show_int_def)
  next
    case False
    with range have "nat i < 10 ^ 2" by simp
    then have "length (show_nat (nat i)) \<le> 2" by (rule length_show_nat) simp
    with False show ?thesis by (simp add: show_int_def)
  qed
  then show ?thesis by (simp add: length_padStart0_eq)
qed

lemma four_digits: "0 \<le> y \<Longrightarrow> y \<le> 9999 \<Longrightarrow> length (iso_year y) = 4"
proof -
  assume range: "0 \<le> y" "y \<le> 9999"
  then have "nat y < 10 ^ 4" by simp
  then have "length (show_nat (nat y)) \<le> 4" by (rule length_show_nat) simp
  with range show ?thesis by (simp add: iso_year_def show_int_def length_padStart0_eq)
qed

text \<open>
  In a year of four digits the first thirteen code units of the ISO string are the date
  and time down to the hour.
\<close>

lemma length_iso_hour_of:
  assumes "0 \<le> YearFromDay (t div 86400000)" and "YearFromDay (t div 86400000) \<le> 9999"
  shows "length (iso_hour_of t) = 13"
proof -
  have "length (padStart0 2 (show_int (MonthFromDay (t div 86400000)))) = 2"
    using MonthFromDay_bounds [of "t div 86400000"] by (intro two_digits) simp_all
  moreover have "length (padStart0 2 (show_int (DateFromDay (t div 86400000)))) = 2"
    using DateFromDay_bounds [of "t div 86400000"] by (intro two_digits) simp_all
  moreover have "length (padStart0 2 (show_int (t mod 86400000 div 3600000))) = 2"
    using hour_bounds [of t] by (intro two_digits) simp_all
  ultimately show ?thesis
    using four_digits [OF assms] by (simp add: iso_hour_of_def)
qed

lemma substring_toISOString:
  assumes "0 \<le> YearFromDay (t div 86400000)" and "YearFromDay (t div 86400000) \<le> 9999"
  shows "take 13 (toISOString t) = iso_hour_of t"
proof -
  have "toISOString t = iso_hour_of t @ '':''
     @ padStart0 2 (show_int (t mod 86400000 div 60000 mod 60)) @ '':''
     @ padStart0 2 (show_int (t mod 86400000 div 1000 mod 60)) @ ''.''
     @ padStart0 3 (show_int (t mod 86400000 mod 1000)) @ ''Z''"
    by (simp add: toISOString_def iso_hour_of_def)
  then show ?thesis
    using length_iso_hour_of [OF assms] by simp
qed

text \<open>Up to the year 9999 the date and time down to the hour are digits, hyphens and a T.\<close>

lemma iso_hour_key_chars:
  assumes "YearFromDay (t div 86400000) \<le> 9999"
  shows "list_all is_key_char (iso_hour_of t)"
  using assms
  by (simp add: iso_hour_of_def iso_year_key_chars padStart0_key_chars show_int_key_chars
      key_chars)

lemma replace_non_key_chars_id: "list_all is_key_char s \<Longrightarrow> replace_non_key_chars s = s"
  by (induction s) (simp_all add: replace_non_key_chars_def)

lemma replace_non_key_chars_append:
  "replace_non_key_chars (a @ b) = replace_non_key_chars a @ replace_non_key_chars b"
  by (simp add: replace_non_key_chars_def)

lemma replace_is_sanitize: "replace_non_key_chars s = sanitize s"
  by (simp add: replace_non_key_chars_def sanitize_def key_class)

text \<open>
  So in such a year replacing over the whole key, as the code does, is replacing over the
  email alone.
\<close>

lemma generateSessionId_valid:
  assumes "Date_new parse timestamp = Some t"
    and "0 \<le> YearFromDay (t div 86400000)" and "YearFromDay (t div 86400000) \<le> 9999"
  shows "generateSessionId parse email timestamp = Inr (sanitize email @ ''-'' @ iso_hour_of t)"
proof -
  have "replace_non_key_chars (''-'' @ iso_hour_of t) = ''-'' @ iso_hour_of t"
    using iso_hour_key_chars [OF assms(3)]
    by (intro replace_non_key_chars_id) (simp add: key_chars)
  then have "replace_non_key_chars (email @ ''-'' @ iso_hour_of t)
      = sanitize email @ ''-'' @ iso_hour_of t"
    unfolding replace_non_key_chars_append [of email] replace_is_sanitize [of email]
    by (rule arg_cong)
  then show ?thesis
    using assms(1)
    by (simp add: generateSessionId_def Date_toISOString_def substring_toISOString [OF assms(2,3)])
qed

lemmas civil_defs =
  era_def doe_def yoe_def doy_def mp_def MonthFromDay_def DateFromDay_def YearFromDay_def

lemma utc_date_time_example: "utc_date_time ''2024-01-15T10:30:45.123Z'' = Some 1705314645123"
  by (simp add: utc_date_time_def num_field_def is_digit_def dec_val_def digit_val_def
      days_in_month_def days_from_civil_def Let_def)

lemma civil_example:
  "YearFromDay 19737 = 2024" "MonthFromDay 19737 = 1" "DateFromDay 19737 = 15"
  by (simp_all add: civil_defs)

lemma toISOString_example: "toISOString 1705314645123 = ''2024-01-15T10:30:45.123Z''"
  by (simp add: toISOString_def civil_example iso_year_def padStart0_def show_int_def
      show_nat_numerals)

lemma iso_hour_of_example: "iso_hour_of 1705314645123 = ''2024-01-15T10''"
  by (simp add: iso_hour_of_def civil_example iso_year_def padStart0_def show_int_def
      show_nat_numerals)

text \<open>The first moment of the year 10000.\<close>

lemma civil_year_10000:
  "YearFromDay 2932897 = 10000" "MonthFromDay 2932897 = 1" "DateFromDay 2932897 = 1"
  by (simp_all add: civil_defs)

lemma show_nat_10000: "show_nat 10000 = ''10000''"
  by (simp add: show_nat.simps digit_char_def)

lemma toISOString_year_10000: "toISOString 253402300800000 = ''+010000-01-01T00:00:00.000Z''"
  by (simp add: toISOString_def civil_year_10000 iso_year_def padStart0_def show_int_def
      show_nat_numerals show_nat_10000 numeral_2_eq_2)

lemma iso_hour_of_year_10000: "iso_hour_of 253402300800000 = ''+010000-01-01T00''"
  by (simp add: iso_hour_of_def civil_year_10000 iso_year_def padStart0_def show_int_def
      show_nat_numerals show_nat_10000)


section \<open>Facts about the event processor\<close>

lemmas object_defs = js_object_def obj_spread_def get_def

lemma js_or_undefined [simp]: "js_or JUndefined b = b"
  by (simp add: js_or_def)

lemma js_or_truthy: "truthy a \<Longrightarrow> js_or a b = a"
  by (simp add: js_or_def)

lemma parseInt_zero: "parseInt_str ''0'' = Fin 0"
  unfolding parseInt_str_def Let_def
  by (simp add: is_space_def is_digit_def dec_val_def digit_val_def)

lemma parseInt_examples:
  "parseInt_str ''1'' = Fin 1" "parseInt_str ''2'' = Fin 2" "parseInt_str ''3'' = Fin 3"
  "parseInt_str ''250'' = Fin 250" "parseInt_str ''-1'' = Fin (- 1)"
  unfolding parseInt_str_def Let_def
  by (simp_all add: is_space_def is_digit_def dec_val_def digit_val_def)

lemma parseFloat_zero: "parseFloat_str ''0'' = Fin 0"
  unfolding parseFloat_str_def exponent_part_def Let_def
  by (simp add: is_space_def is_digit_def dec_val_def digit_val_def)

lemma attr_missing: "a k = None \<Longrightarrow> attr a k = JUndefined"
  by (simp add: attr_def)

lemma standardAttrs_of_list:
  "standardAttrs_of attrs s isoString =
       [(''sessionId'', js_or (attr attrs ''session.id'') (sessionId s)),
        (''organizationId'', attr attrs ''organization.id''),
        (''userAccountUuid'', attr attrs ''user.account_uuid''),
        (''userEmail'', attr attrs ''user.email''),
        (''terminalType'', attr attrs ''terminal.type''),
        (''appVersion'', attr attrs ''app.version''),
        (''timestamp'', JStr isoString)]"
  by (simp add: standardAttrs_of_def object_defs)

text \<open>What the processor stores: only the four identity properties, and only where empty.\<close>

lemma storeStandardAttrs_of:
  "storeStandardAttrs (standardAttrs_of attrs s isoString) s =
     s\<lparr>organizationId := store_if_absent (attr attrs ''organization.id'') (organizationId s),
       userAccountUuid := store_if_absent (attr attrs ''user.account_uuid'') (userAccountUuid s),
       userEmail := store_if_absent (attr attrs ''user.email'') (userEmail s),
       terminalType := store_if_absent (attr attrs ''terminal.type'') (terminalType s)\<rparr>"
  by (simp add: storeStandardAttrs_def standardAttrs_of_list get_def)

lemma processEvent_invalid:
  assumes "Date_of_num (js_div_pos (timeUnixNano logRecord) 1000000) = None"
  shows "processEvent X M logRecord resource s = (s, Inl RangeError)"
  using assms by (simp add: processEvent_def Date_toISOString_def)

text \<open>A record with a valid date reaches the dispatch, one case per event name.\<close>

lemma processEvent_valid:
  assumes "Date_of_num (js_div_pos (timeUnixNano r) 1000000) = Some t"
    and "a = X (attributes r)"
  shows
    "body r = JStr ''claude_code.user_prompt'' \<Longrightarrow>
       processEvent X M r resource s =
         returned (processUserPrompt M a (standardAttrs_of a s (toISOString t))
           (js_div_pos (timeUnixNano r) 1000000)
           (storeStandardAttrs (standardAttrs_of a s (toISOString t)) s))"
    "body r = JStr ''claude_code.api_request'' \<Longrightarrow>
       processEvent X M r resource s =
         returned (processApiRequest M a (standardAttrs_of a s (toISOString t))
           (js_div_pos (timeUnixNano r) 1000000)
           (storeStandardAttrs (standardAttrs_of a s (toISOString t)) s))"
    "body r = JStr ''claude_code.api_error'' \<Longrightarrow>
       processEvent X M r resource s =
         returned (processApiError M a (standardAttrs_of a s (toISOString t))
           (js_div_pos (timeUnixNano r) 1000000)
           (storeStandardAttrs (standardAttrs_of a s (toISOString t)) s))"
    "body r = JStr ''claude_code.tool_result'' \<Longrightarrow>
       processEvent X M r resource s =
         returned (processToolResult M a (standardAttrs_of a s (toISOString t))
           (js_div_pos (timeUnixNano r) 1000000)
           (storeStandardAttrs (standardAttrs_of a s (toISOString t)) s))"
    "body r = JStr ''claude_code.tool_decision'' \<Longrightarrow>
       processEvent X M r resource s =
         returned (processToolDecision a (standardAttrs_of a s (toISOString t))
           (js_div_pos (timeUnixNano r) 1000000)
           (storeStandardAttrs (standardAttrs_of a s (toISOString t)) s))"
    "body r \<noteq> JStr ''claude_code.user_prompt'' \<Longrightarrow>
     body r \<noteq> JStr ''claude_code.api_request'' \<Longrightarrow>
     body r \<noteq> JStr ''claude_code.api_error'' \<Longrightarrow>
     body r \<noteq> JStr ''claude_code.tool_result'' \<Longrightarrow>
     body r \<noteq> JStr ''claude_code.tool_decision'' \<Longrightarrow>
       processEvent X M r resource s =
         (storeStandardAttrs (standardAttrs_of a s (toISOString t)) s, Inr None)"
  unfolding processEvent_def Date_toISOString_def Let_def using assms by simp_all

text \<open>The object each event returns, property by property.\<close>

lemma processUserPrompt_event:
  "snd (processUserPrompt M attrs (standardAttrs_of attrs s0 isoString) timestamp s) =
     [(''type'', JStr ''user_prompt''),
      (''prompt'', js_or (js_or (attr attrs ''prompt'') (attr attrs ''user.prompt'')) (JStr [])),
      (''promptLength'', JNum (parseInt10 (js_or (js_or (attr attrs ''prompt_length'')
         (attr attrs ''prompt.length'')) (JStr ''0''))))]
     @ standardAttrs_of attrs s0 isoString"
  unfolding processUserPrompt_def Let_def
  by (simp add: standardAttrs_of_list object_defs)

lemma processApiRequest_event:
  "snd (processApiRequest M attrs (standardAttrs_of attrs s0 isoString) timestamp s) =
     [(''type'', JStr ''api_request''),
      (''model'', js_or (js_or (attr attrs ''model'') (attr attrs ''model.name'')) (JStr ''unknown'')),
      (''inputTokens'', JNum (parseInt10 (js_or (js_or (attr attrs ''input_tokens'')
         (attr attrs ''tokens.input'')) (JStr ''0'')))),
      (''outputTokens'', JNum (parseInt10 (js_or (js_or (attr attrs ''output_tokens'')
         (attr attrs ''tokens.output'')) (JStr ''0'')))),
      (''cacheReadTokens'', JNum (parseInt10 (js_or (js_or (attr attrs ''cache_read_tokens'')
         (attr attrs ''cache.read_tokens'')) (JStr ''0'')))),
      (''cacheCreationTokens'', JNum (parseInt10 (js_or (js_or (attr attrs ''cache_creation_tokens'')
         (attr attrs ''cache.creation_tokens'')) (JStr ''0'')))),
      (''costUsd'', JNum (parseFloat_val (js_or (js_or (js_or (attr attrs ''cost_usd'')
         (attr attrs ''cost'')) (attr attrs ''cost.usd'')) (JStr ''0'')))),
      (''durationMs'', JNum (parseInt10 (js_or (js_or (attr attrs ''duration_ms'')
         (attr attrs ''duration'')) (JStr ''0'')))),
      (''requestId'', js_or (attr attrs ''request_id'') (attr attrs ''request.id''))]
     @ standardAttrs_of attrs s0 isoString"
  unfolding processApiRequest_def Let_def
  by (simp add: standardAttrs_of_list object_defs)

lemma processApiError_event:
  "snd (processApiError M attrs (standardAttrs_of attrs s0 isoString) timestamp s) =
     [(''type'', JStr ''api_error''),
      (''errorMessage'', js_or (js_or (js_or (attr attrs ''error_message'') (attr attrs ''error''))
         (attr attrs ''message'')) (JStr ''Unknown error'')),
      (''statusCode'', JNum (parseInt10 (js_or (js_or (attr attrs ''status_code'')
         (attr attrs ''status'')) (JStr ''0'')))),
      (''model'', js_or (attr attrs ''model'') (JStr ''unknown'')),
      (''requestId'', js_or (attr attrs ''request_id'') (attr attrs ''request.id''))]
     @ standardAttrs_of attrs s0 isoString"
  unfolding processApiError_def Let_def
  by (simp add: standardAttrs_of_list object_defs)

lemma processToolResult_event:
  "snd (processToolResult M attrs (standardAttrs_of attrs s0 isoString) timestamp s) =
     [(''type'', JStr ''tool_result''),
      (''toolName'', js_or (js_or (js_or (attr attrs ''tool_name'') (attr attrs ''tool''))
         (attr attrs ''name'')) (JStr ''unknown'')),
      (''success'', JBool (attr attrs ''success'' = JStr ''true'' \<or> attr attrs ''success'' = JBool True)),
      (''durationMs'', JNum (parseInt10 (js_or (js_or (attr attrs ''duration_ms'')
         (attr attrs ''duration'')) (JStr ''0''))))]
     @ standardAttrs_of attrs s0 isoString"
  unfolding processToolResult_def Let_def
  by (simp add: standardAttrs_of_list object_defs)

lemma processToolDecision_event:
  "snd (processToolDecision attrs (standardAttrs_of attrs s0 isoString) timestamp s) =
     [(''type'', JStr ''tool_decision''),
      (''decision'', js_or (attr attrs ''decision'') (JStr ''unknown'')),
      (''source'', js_or (attr attrs ''source'') (JStr ''unknown'')),
      (''toolName'', js_or (js_or (attr attrs ''tool_name'') (attr attrs ''tool'')) (JStr ''unknown''))]
     @ standardAttrs_of attrs s0 isoString"
  unfolding processToolDecision_def tool_decision_result_def
  by (simp add: standardAttrs_of_list object_defs split: option.split)

text \<open>The session each event leaves.\<close>

lemma decision_accept:
  "(js_or (attr attrs ''decision'') (JStr ''unknown'') = JStr ''accept'')
     = (attr attrs ''decision'' = JStr ''accept'')"
  by (auto simp: js_or_def)

lemma tool_permission_decision_level:
  "ev_level (tool_permission_decision_event attrs standardAttrs traceId)
     = (if attr attrs ''decision'' = JStr ''accept'' then ''DEFAULT'' else ''WARNING'')"
  unfolding tool_permission_decision_event_def Let_def
  by (simp add: decision_accept)

lemma processToolDecision_frame:
  "\<exists>l. fst (processToolDecision attrs standardAttrs timestamp s) = s\<lparr>langfuse := l\<rparr>"
proof (cases "currentTrace s")
  case None
  then have "fst (processToolDecision attrs standardAttrs timestamp s) = s\<lparr>langfuse := langfuse s\<rparr>"
    by (simp add: processToolDecision_def)
  then show ?thesis by blast
next
  case (Some traceId)
  show ?thesis
  proof (cases "langfuse s")
    case None
    with Some
    have "fst (processToolDecision attrs standardAttrs timestamp s) = s\<lparr>langfuse := langfuse s\<rparr>"
      by (simp add: processToolDecision_def)
    then show ?thesis by blast
  next
    case (Some events)
    with \<open>currentTrace s = Some traceId\<close>
    have "fst (processToolDecision attrs standardAttrs timestamp s)
        = s\<lparr>langfuse := Some (events @
             [tool_permission_decision_event attrs standardAttrs traceId])\<rparr>"
      by (simp add: processToolDecision_def)
    then show ?thesis by blast
  qed
qed

lemma processToolDecision_emits:
  assumes "currentTrace s = Some traceId" and "langfuse s = Some events"
  shows "\<exists>e. langfuse (fst (processToolDecision attrs standardAttrs timestamp s))
              = Some (events @ [e])
           \<and> ev_level e = (if attr attrs ''decision'' = JStr ''accept''
                            then ''DEFAULT'' else ''WARNING'')"
  using assms by (simp add: processToolDecision_def tool_permission_decision_level)

lemma processToolDecision_silent:
  assumes "currentTrace s = None \<or> langfuse s = None"
  shows "fst (processToolDecision attrs standardAttrs timestamp s) = s"
  using assms by (auto simp: processToolDecision_def split: option.split)

lemma example_time_valid:
  "Date_of_num (js_div_pos example_time 1000000) = Some 1705314645123"
  by (simp add: example_time_def trunc_def)

lemma missing_attrs:
  "missing a [k] \<Longrightarrow> attr a k = JUndefined"
  "missing a [k, k'] \<Longrightarrow> attr a k = JUndefined \<and> attr a k' = JUndefined"
  "missing a [k, k', k''] \<Longrightarrow>
     attr a k = JUndefined \<and> attr a k' = JUndefined \<and> attr a k'' = JUndefined"
  by (simp_all add: missing_def attr_def)

section \<open>Facts about the metrics processor\<close>

text \<open>The dispatch of a metric name, after the session's own method has run.\<close>

lemma processMetric_dispatch:
  assumes "timestamp = js_div_pos (dp_timeUnixNano dp) 1000000"
    and "s1 = session_processMetric M metric dp attrs s"
  shows
    "name metric = JStr ''claude_code.cost.usage'' \<Longrightarrow>
       processMetric M metric dp attrs s = returned (processCostMetric dp attrs timestamp s1)"
    "name metric = JStr ''claude_code.token.usage'' \<Longrightarrow>
       processMetric M metric dp attrs s = returned (processTokenMetric dp attrs timestamp s1)"
    "name metric = JStr ''claude_code.lines_of_code.count'' \<Longrightarrow>
       processMetric M metric dp attrs s = returned (processLinesOfCodeMetric dp attrs timestamp s1)"
    "name metric = JStr ''claude_code.commit.count'' \<Longrightarrow>
       processMetric M metric dp attrs s = returned (processCommitMetric dp attrs timestamp s1)"
    "name metric = JStr ''claude_code.code_edit_tool.decision'' \<Longrightarrow>
       processMetric M metric dp attrs s
         = thrown_or_returned (processToolDecisionMetric dp attrs timestamp s1)"
    "name metric = JStr ''claude_code.session.count'' \<Longrightarrow>
       processMetric M metric dp attrs s
         = thrown_or_returned (processSessionMetric dp attrs timestamp s1)"
    "name metric = JStr ''claude_code.active_time.total'' \<Longrightarrow>
       processMetric M metric dp attrs s = returned (processActiveTimeMetric dp attrs timestamp s1)"
    "name metric = JStr ''claude_code.pr.count'' \<Longrightarrow>
       processMetric M metric dp attrs s = returned (processPullRequestMetric dp attrs timestamp s1)"
    "name metric = JStr ''claude_code.pull_request.count'' \<Longrightarrow>
       processMetric M metric dp attrs s = returned (processPullRequestMetric dp attrs timestamp s1)"
  unfolding processMetric_def Let_def using assms by simp_all

lemma processMetric_unknown:
  assumes "name metric \<noteq> JStr ''claude_code.cost.usage''"
    and "name metric \<noteq> JStr ''claude_code.token.usage''"
    and "name metric \<noteq> JStr ''claude_code.lines_of_code.count''"
    and "name metric \<noteq> JStr ''claude_code.commit.count''"
    and "name metric \<noteq> JStr ''claude_code.code_edit_tool.decision''"
    and "name metric \<noteq> JStr ''claude_code.session.count''"
    and "name metric \<noteq> JStr ''claude_code.active_time.total''"
    and "name metric \<noteq> JStr ''claude_code.pr.count''"
    and "name metric \<noteq> JStr ''claude_code.pull_request.count''"
  shows "processMetric M metric dp attrs s = (session_processMetric M metric dp attrs s, Inr None)"
  unfolding processMetric_def Let_def using assms by simp

text \<open>The tool decision of a metric: the entry, and the event when there is a trace.\<close>

lemma code_edit_decision_entry_list:
  "code_edit_decision_entry dp attrs timestamp =
     [(''decision'', js_or (attr attrs ''decision'') (JStr ''unknown'')),
      (''tool'', js_or (attr attrs ''tool'') (JStr ''unknown'')),
      (''language'', js_or (attr attrs ''language'') (JStr ''unknown'')),
      (''count'', js_or (js_or (asDouble dp) (asInt dp)) (JNum (Fin 1))),
      (''timestamp'', JNum timestamp)]"
  by (simp add: code_edit_decision_entry_def object_defs)

lemma code_edit_decision_result_list:
  "code_edit_decision_result dp attrs timestamp =
     [(''type'', JStr ''tool_decision''),
      (''decision'', js_or (attr attrs ''decision'') (JStr ''unknown'')),
      (''tool'', js_or (attr attrs ''tool'') (JStr ''unknown'')),
      (''language'', js_or (attr attrs ''language'') (JStr ''unknown'')),
      (''count'', js_or (js_or (asDouble dp) (asInt dp)) (JNum (Fin 1))),
      (''timestamp'', JNum timestamp)]"
  by (simp add: code_edit_decision_result_def object_defs)

lemma code_edit_decision_level:
  "ev_level (code_edit_decision_event dp attrs traceId isoString)
     = (if attr attrs ''decision'' = JStr ''accept'' then ''DEFAULT'' else ''WARNING'')"
  unfolding code_edit_decision_event_def Let_def
  by (simp add: decision_accept)

lemma processToolDecisionMetric_entry:
  "toolDecisions (fst (processToolDecisionMetric dp attrs timestamp s)) =
     Some ((case toolDecisions s of None \<Rightarrow> [] | Some ds \<Rightarrow> ds) @
       [code_edit_decision_entry dp attrs timestamp])"
  unfolding processToolDecisionMetric_def Let_def
  by (simp split: option.split sum.split)

lemma processToolDecisionMetric_emits:
  assumes "currentTrace s = Some traceId" and "langfuse s = Some events"
    and "Date_of_num timestamp = Some t"
  shows "\<exists>e. langfuse (fst (processToolDecisionMetric dp attrs timestamp s))
              = Some (events @ [e])
           \<and> ev_level e = (if attr attrs ''decision'' = JStr ''accept''
                            then ''DEFAULT'' else ''WARNING'')"
  unfolding processToolDecisionMetric_def Let_def
  using assms by (simp add: code_edit_decision_level Date_toISOString_def)

lemma processToolDecisionMetric_frame:
  "\<exists>ds l. fst (processToolDecisionMetric dp attrs timestamp s)
            = s\<lparr>toolDecisions := ds, langfuse := l\<rparr>"
proof -
  let ?ds = "Some ((case toolDecisions s of None \<Rightarrow> [] | Some ds \<Rightarrow> ds) @
       [code_edit_decision_entry dp attrs timestamp])"
  have "fst (processToolDecisionMetric dp attrs timestamp s)
      = s\<lparr>toolDecisions := ?ds,
          langfuse := langfuse (fst (processToolDecisionMetric dp attrs timestamp s))\<rparr>"
    unfolding processToolDecisionMetric_def Let_def
    by (simp split: option.split sum.split)
  then show ?thesis by blast
qed

lemma processSessionMetric_session:
  "fst (processSessionMetric dp attrs timestamp s) = s\<lparr>sessionStarted := JBool True\<rparr>"
  unfolding processSessionMetric_def
  by (simp split: sum.split)

lemma or_zero_cases:
  "(\<exists>r. or_zero c = Fin r) \<or> or_zero c = PInf \<or> or_zero c = NInf"
  by (cases c; simp add: or_zero_def; metis jsnum.exhaust truthy_num.simps(2))

lemma js_add_zero: "js_add (or_zero c) (Fin 0) = or_zero c"
  using or_zero_cases [of c] by auto

text \<open>The values the processors read off a datapoint.\<close>

lemma metric_values:
  "get (snd (processCostMetric dp attrs timestamp s)) ''cost'' = js_or (asDouble dp) (JNum (Fin 0))"
  "get (snd (processTokenMetric dp attrs timestamp s)) ''tokens'' = js_or (asDouble dp) (JNum (Fin 0))"
  "get (snd (processLinesOfCodeMetric dp attrs timestamp s)) ''lines''
     = js_or (asDouble dp) (JNum (Fin 0))"
  "get (snd (processActiveTimeMetric dp attrs timestamp s)) ''activeTime''
     = js_or (asDouble dp) (JNum (Fin 0))"
  "activeTime (fst (processActiveTimeMetric dp attrs timestamp s))
     = js_or (asDouble dp) (JNum (Fin 0))"
  "get (snd (processCommitMetric dp attrs timestamp s)) ''commits'' = JNum (count_increment dp)"
  "commitCount (fst (processCommitMetric dp attrs timestamp s))
     = Some (js_add (or_zero (commitCount s)) (count_increment dp))"
  "get (snd (processPullRequestMetric dp attrs timestamp s)) ''prCount''
     = JNum (count_increment dp)"
  "prCount (fst (processPullRequestMetric dp attrs timestamp s))
     = Some (js_add (or_zero (prCount s)) (count_increment dp))"
  unfolding processCostMetric_def processTokenMetric_def processLinesOfCodeMetric_def
    processActiveTimeMetric_def processCommitMetric_def processPullRequestMetric_def Let_def
  by (simp_all add: object_defs)

text \<open>
  A datapoint that carries its value in \<open>asInt\<close> alone, as the string 250: the two counters
  parse it; the processors that read \<open>asDouble\<close> alone report 0, and the active time of the
  session is set to 0.
\<close>

lemma asInt_only_datapoint:
  assumes "dp = \<lparr>asDouble = JUndefined, asInt = JStr ''250'', dp_timeUnixNano = example_time\<rparr>"
  shows "count_increment dp = Fin 250"
    and "get (snd (processTokenMetric dp attrs timestamp s)) ''tokens'' = JNum (Fin 0)"
    and "get (snd (processCostMetric dp attrs timestamp s)) ''cost'' = JNum (Fin 0)"
    and "activeTime (fst (processActiveTimeMetric dp attrs timestamp s)) = JNum (Fin 0)"
  using assms by (simp_all add: metric_values count_increment_def js_or_def parseInt_examples)


section \<open>Facts about streams of records\<close>

text \<open>
  Where the session of a log record comes from: the record is dropped at the date, or the
  standard attributes are stored and then at most one method of the session runs, or one
  event goes to the backend.
\<close>

lemma processEvent_session:
  "fst (processEvent X M r resource s) = s
   \<or> (\<exists>std args ts l.
        fst (processEvent X M r resource s) = storeStandardAttrs std s
        \<or> fst (processEvent X M r resource s) = handleUserPrompt M args ts (storeStandardAttrs std s)
        \<or> fst (processEvent X M r resource s) = handleApiRequest M args ts (storeStandardAttrs std s)
        \<or> fst (processEvent X M r resource s) = handleApiError M args ts (storeStandardAttrs std s)
        \<or> fst (processEvent X M r resource s) = handleToolResult M args ts (storeStandardAttrs std s)
        \<or> fst (processEvent X M r resource s) = (storeStandardAttrs std s)\<lparr>langfuse := l\<rparr>)"
proof (cases "Date_of_num (js_div_pos (timeUnixNano r) 1000000)")
  case None
  then show ?thesis by (simp add: processEvent_invalid)
next
  case (Some t)
  let ?a = "X (attributes r)"
  let ?std = "standardAttrs_of ?a s (toISOString t)"
  let ?ts = "js_div_pos (timeUnixNano r) 1000000"
  let ?s1 = "storeStandardAttrs ?std s"
  note run = processEvent_valid [where X = X and r = r and a = ?a and M = M
      and resource = resource and s = s, OF Some refl]
  consider (prompt) "body r = JStr ''claude_code.user_prompt''"
    | (request) "body r = JStr ''claude_code.api_request''"
    | (error) "body r = JStr ''claude_code.api_error''"
    | (result) "body r = JStr ''claude_code.tool_result''"
    | (decision) "body r = JStr ''claude_code.tool_decision''"
    | (unknown) "body r \<noteq> JStr ''claude_code.user_prompt''"
        "body r \<noteq> JStr ''claude_code.api_request''"
        "body r \<noteq> JStr ''claude_code.api_error''"
        "body r \<noteq> JStr ''claude_code.tool_result''"
        "body r \<noteq> JStr ''claude_code.tool_decision''"
    by blast
  then show ?thesis
  proof cases
    case prompt
    have "\<exists>args ts. fst (processUserPrompt M ?a ?std ?ts ?s1) = handleUserPrompt M args ts ?s1"
      unfolding processUserPrompt_def Let_def by auto
    with run(1) [OF prompt] show ?thesis unfolding returned_def by (metis fst_conv)
  next
    case request
    have "\<exists>args ts. fst (processApiRequest M ?a ?std ?ts ?s1) = handleApiRequest M args ts ?s1"
      unfolding processApiRequest_def Let_def by auto
    with run(2) [OF request] show ?thesis unfolding returned_def by (metis fst_conv)
  next
    case error
    have "\<exists>args ts. fst (processApiError M ?a ?std ?ts ?s1) = handleApiError M args ts ?s1"
      unfolding processApiError_def Let_def by auto
    with run(3) [OF error] show ?thesis unfolding returned_def by (metis fst_conv)
  next
    case result
    have "\<exists>args ts. fst (processToolResult M ?a ?std ?ts ?s1) = handleToolResult M args ts ?s1"
      unfolding processToolResult_def Let_def by auto
    with run(4) [OF result] show ?thesis unfolding returned_def by (metis fst_conv)
  next
    case decision
    have "\<exists>l. fst (processToolDecision ?a ?std ?ts ?s1) = ?s1\<lparr>langfuse := l\<rparr>"
      using processToolDecision_frame [of ?a ?std ?ts ?s1] by blast
    with run(5) [OF decision] show ?thesis unfolding returned_def by (metis fst_conv)
  next
    case unknown
    from run(6) [OF unknown] show ?thesis by (metis fst_conv)
  qed
qed

text \<open>
  Where the session of a datapoint comes from: the session's own method runs, then the
  dispatcher makes at most one of five updates.
\<close>

lemma fst_returned: "fst (returned r) = fst r"
  by (simp add: returned_def)

lemma fst_thrown_or_returned: "fst (thrown_or_returned r) = fst r"
  by (simp add: thrown_or_returned_def)

lemma untouched_session:
  "fst (processCostMetric dp attrs timestamp s) = s"
  "fst (processTokenMetric dp attrs timestamp s) = s"
  "fst (processLinesOfCodeMetric dp attrs timestamp s) = s"
  by (simp_all add: processCostMetric_def processTokenMetric_def processLinesOfCodeMetric_def
      Let_def)

lemma processCommitMetric_session:
  "fst (processCommitMetric dp attrs timestamp s)
     = s\<lparr>commitCount := Some (js_add (or_zero (commitCount s)) (count_increment dp))\<rparr>"
  by (simp add: processCommitMetric_def Let_def)

lemma processPullRequestMetric_session:
  "fst (processPullRequestMetric dp attrs timestamp s)
     = s\<lparr>prCount := Some (js_add (or_zero (prCount s)) (count_increment dp))\<rparr>"
  by (simp add: processPullRequestMetric_def Let_def)

lemma processActiveTimeMetric_session:
  "fst (processActiveTimeMetric dp attrs timestamp s)
     = s\<lparr>activeTime := js_or (asDouble dp) (JNum (Fin 0))\<rparr>"
  by (simp add: processActiveTimeMetric_def Let_def)

lemma processMetric_session:
  assumes "s1 = session_processMetric M m dp attrs s"
  shows "fst (processMetric M m dp attrs s) = s1
   \<or> (name m = JStr ''claude_code.commit.count''
        \<and> fst (processMetric M m dp attrs s)
            = s1\<lparr>commitCount := Some (js_add (or_zero (commitCount s1)) (count_increment dp))\<rparr>)
   \<or> ((name m = JStr ''claude_code.pr.count'' \<or> name m = JStr ''claude_code.pull_request.count'')
        \<and> fst (processMetric M m dp attrs s)
            = s1\<lparr>prCount := Some (js_add (or_zero (prCount s1)) (count_increment dp))\<rparr>)
   \<or> (\<exists>v. fst (processMetric M m dp attrs s) = s1\<lparr>activeTime := v\<rparr>)
   \<or> fst (processMetric M m dp attrs s) = s1\<lparr>sessionStarted := JBool True\<rparr>
   \<or> (\<exists>ds l. fst (processMetric M m dp attrs s) = s1\<lparr>toolDecisions := ds, langfuse := l\<rparr>)"
proof -
  let ?ts = "js_div_pos (dp_timeUnixNano dp) 1000000"
  note dispatch = processMetric_dispatch [OF refl assms]
  consider
      (cost) "name m = JStr ''claude_code.cost.usage''"
    | (token) "name m = JStr ''claude_code.token.usage''"
    | (lines) "name m = JStr ''claude_code.lines_of_code.count''"
    | (commit) "name m = JStr ''claude_code.commit.count''"
    | (decision) "name m = JStr ''claude_code.code_edit_tool.decision''"
    | (start) "name m = JStr ''claude_code.session.count''"
    | (active) "name m = JStr ''claude_code.active_time.total''"
    | (pr) "name m = JStr ''claude_code.pr.count''"
    | (pull) "name m = JStr ''claude_code.pull_request.count''"
    | (other) "name m \<noteq> JStr ''claude_code.cost.usage''"
        "name m \<noteq> JStr ''claude_code.token.usage''"
        "name m \<noteq> JStr ''claude_code.lines_of_code.count''"
        "name m \<noteq> JStr ''claude_code.commit.count''"
        "name m \<noteq> JStr ''claude_code.code_edit_tool.decision''"
        "name m \<noteq> JStr ''claude_code.session.count''"
        "name m \<noteq> JStr ''claude_code.active_time.total''"
        "name m \<noteq> JStr ''claude_code.pr.count''"
        "name m \<noteq> JStr ''claude_code.pull_request.count''"
    by blast
  then show ?thesis
  proof cases
    case cost
    have "fst (processMetric M m dp attrs s) = s1"
      by (simp only: dispatch(1) [OF cost] fst_returned untouched_session)
    then show ?thesis by (rule disjI1)
  next
    case token
    have "fst (processMetric M m dp attrs s) = s1"
      by (simp only: dispatch(2) [OF token] fst_returned untouched_session)
    then show ?thesis by (rule disjI1)
  next
    case lines
    have "fst (processMetric M m dp attrs s) = s1"
      by (simp only: dispatch(3) [OF lines] fst_returned untouched_session)
    then show ?thesis by (rule disjI1)
  next
    case commit
    have "fst (processMetric M m dp attrs s)
        = s1\<lparr>commitCount := Some (js_add (or_zero (commitCount s1)) (count_increment dp))\<rparr>"
      by (simp only: dispatch(4) [OF commit] fst_returned processCommitMetric_session)
    with commit show ?thesis by blast
  next
    case decision
    have "fst (processMetric M m dp attrs s) = fst (processToolDecisionMetric dp attrs ?ts s1)"
      by (simp only: dispatch(5) [OF decision] fst_thrown_or_returned)
    with processToolDecisionMetric_frame [of dp attrs ?ts s1]
    have "\<exists>ds l. fst (processMetric M m dp attrs s) = s1\<lparr>toolDecisions := ds, langfuse := l\<rparr>"
      by simp
    then show ?thesis by blast
  next
    case start
    have "fst (processMetric M m dp attrs s) = s1\<lparr>sessionStarted := JBool True\<rparr>"
      by (simp only: dispatch(6) [OF start] fst_thrown_or_returned processSessionMetric_session)
    then show ?thesis by blast
  next
    case active
    have "fst (processMetric M m dp attrs s)
        = s1\<lparr>activeTime := js_or (asDouble dp) (JNum (Fin 0))\<rparr>"
      by (simp only: dispatch(7) [OF active] fst_returned processActiveTimeMetric_session)
    then show ?thesis by blast
  next
    case pr
    have "fst (processMetric M m dp attrs s)
        = s1\<lparr>prCount := Some (js_add (or_zero (prCount s1)) (count_increment dp))\<rparr>"
      by (simp only: dispatch(8) [OF pr] fst_returned processPullRequestMetric_session)
    with pr show ?thesis by blast
  next
    case pull
    have "fst (processMetric M m dp attrs s)
        = s1\<lparr>prCount := Some (js_add (or_zero (prCount s1)) (count_increment dp))\<rparr>"
      by (simp only: dispatch(9) [OF pull] fst_returned processPullRequestMetric_session)
    with pull show ?thesis by blast
  next
    case other
    have "fst (processMetric M m dp attrs s) = s1"
      by (simp only: processMetric_unknown [OF other] assms fst_conv)
    then show ?thesis by (rule disjI1)
  qed
qed
subsection \<open>The identity of the session\<close>

lemma store_if_absent_truthy: "truthy old \<Longrightarrow> store_if_absent new old = old"
  by (simp add: store_if_absent_def)

lemma storeStandardAttrs_identity:
  "truthy (organizationId s) \<Longrightarrow> organizationId (storeStandardAttrs std s) = organizationId s"
  "truthy (userAccountUuid s) \<Longrightarrow> userAccountUuid (storeStandardAttrs std s) = userAccountUuid s"
  "truthy (userEmail s) \<Longrightarrow> userEmail (storeStandardAttrs std s) = userEmail s"
  "truthy (terminalType s) \<Longrightarrow> terminalType (storeStandardAttrs std s) = terminalType s"
  "appVersion (storeStandardAttrs std s) = appVersion s"
  by (simp_all add: storeStandardAttrs_def store_if_absent_truthy)

lemma identity_of_eq:
  "identity_of s' = identity_of s \<longleftrightarrow>
     organizationId s' = organizationId s \<and> userAccountUuid s' = userAccountUuid s
     \<and> userEmail s' = userEmail s \<and> terminalType s' = terminalType s
     \<and> appVersion s' = appVersion s"
  by (simp add: identity_of_def)

subsection \<open>The aggregates\<close>

lemma js_le_or_zero_refl: "js_le (or_zero c) (or_zero c)"
  using or_zero_cases [of c] by auto

lemma js_le_trans: "js_le a b \<Longrightarrow> js_le b c \<Longrightarrow> js_le a c"
  by (cases a; cases b; cases c) simp_all

lemma nondecreasing_refl: "nondecreasing c c"
  by (simp add: nondecreasing_def js_le_or_zero_refl)

lemma nondecreasing_trans: "nondecreasing a b \<Longrightarrow> nondecreasing b c \<Longrightarrow> nondecreasing a c"
  unfolding nondecreasing_def by (rule js_le_trans)

lemma aggregates_nondecreasing_refl: "aggregates_nondecreasing s s"
  by (simp add: aggregates_nondecreasing_def nondecreasing_refl)

lemma aggregates_nondecreasing_trans:
  "aggregates_nondecreasing s s' \<Longrightarrow> aggregates_nondecreasing s' s''
     \<Longrightarrow> aggregates_nondecreasing s s''"
  unfolding aggregates_nondecreasing_def by (blast intro: nondecreasing_trans)

text \<open>Adding an increment that is not negative does not decrease a counter.\<close>

lemma nondecreasing_add:
  assumes "js_le (Fin 0) i"
  shows "nondecreasing c (Some (js_add (or_zero c) i))"
proof -
  from assms consider r where "i = Fin r" "0 \<le> r" | "i = PInf"
    by (cases i) simp_all
  then show ?thesis
    using or_zero_cases [of c]
    by cases (auto simp: nondecreasing_def or_zero_def)
qed

subsection \<open>One record\<close>

lemma ingest_record_identity:
  assumes "\<And>args ts s. identity_of (handleUserPrompt M args ts s) = identity_of s"
    and "\<And>args ts s. identity_of (handleApiRequest M args ts s) = identity_of s"
    and "\<And>args ts s. identity_of (handleApiError M args ts s) = identity_of s"
    and "\<And>args ts s. identity_of (handleToolResult M args ts s) = identity_of s"
    and "\<And>m dp a s. identity_of (session_processMetric M m dp a s) = identity_of s"
  shows "truthy (organizationId s) \<Longrightarrow> organizationId (ingest_record X M r s) = organizationId s"
    and "truthy (userAccountUuid s) \<Longrightarrow> userAccountUuid (ingest_record X M r s) = userAccountUuid s"
    and "truthy (userEmail s) \<Longrightarrow> userEmail (ingest_record X M r s) = userEmail s"
    and "truthy (terminalType s) \<Longrightarrow> terminalType (ingest_record X M r s) = terminalType s"
    and "appVersion (ingest_record X M r s) = appVersion s"
proof -
  note methods = assms [unfolded identity_of_eq]
  show "truthy (organizationId s) \<Longrightarrow> organizationId (ingest_record X M r s) = organizationId s"
  proof (cases r)
    case (Log logRecord resource)
    assume "truthy (organizationId s)"
    then show ?thesis
      using processEvent_session [of X M logRecord resource s] methods
      by (auto simp: Log storeStandardAttrs_identity)
  next
    case (Metric m dp a)
    show ?thesis
      using processMetric_session [OF refl, of M m dp a s] methods
      by (auto simp: Metric)
  qed
  show "truthy (userAccountUuid s) \<Longrightarrow> userAccountUuid (ingest_record X M r s) = userAccountUuid s"
  proof (cases r)
    case (Log logRecord resource)
    assume "truthy (userAccountUuid s)"
    then show ?thesis
      using processEvent_session [of X M logRecord resource s] methods
      by (auto simp: Log storeStandardAttrs_identity)
  next
    case (Metric m dp a)
    show ?thesis
      using processMetric_session [OF refl, of M m dp a s] methods
      by (auto simp: Metric)
  qed
  show "truthy (userEmail s) \<Longrightarrow> userEmail (ingest_record X M r s) = userEmail s"
  proof (cases r)
    case (Log logRecord resource)
    assume "truthy (userEmail s)"
    then show ?thesis
      using processEvent_session [of X M logRecord resource s] methods
      by (auto simp: Log storeStandardAttrs_identity)
  next
    case (Metric m dp a)
    show ?thesis
      using processMetric_session [OF refl, of M m dp a s] methods
      by (auto simp: Metric)
  qed
  show "truthy (terminalType s) \<Longrightarrow> terminalType (ingest_record X M r s) = terminalType s"
  proof (cases r)
    case (Log logRecord resource)
    assume "truthy (terminalType s)"
    then show ?thesis
      using processEvent_session [of X M logRecord resource s] methods
      by (auto simp: Log storeStandardAttrs_identity)
  next
    case (Metric m dp a)
    show ?thesis
      using processMetric_session [OF refl, of M m dp a s] methods
      by (auto simp: Metric)
  qed
  show "appVersion (ingest_record X M r s) = appVersion s"
  proof (cases r)
    case (Log logRecord resource)
    show ?thesis
      using processEvent_session [of X M logRecord resource s] methods
      by (auto simp: Log storeStandardAttrs_identity)
  next
    case (Metric m dp a)
    show ?thesis
      using processMetric_session [OF refl, of M m dp a s] methods
      by (auto simp: Metric)
  qed
qed
lemma aggregates_unread:
  "aggregates_nondecreasing s (storeStandardAttrs std s)"
  "aggregates_nondecreasing s (s\<lparr>langfuse := l\<rparr>)"
  "aggregates_nondecreasing s (s\<lparr>activeTime := v\<rparr>)"
  "aggregates_nondecreasing s (s\<lparr>sessionStarted := b\<rparr>)"
  "aggregates_nondecreasing s (s\<lparr>toolDecisions := ds, langfuse := l\<rparr>)"
  by (simp_all add: aggregates_nondecreasing_def nondecreasing_refl storeStandardAttrs_def)

lemma aggregates_counted:
  assumes "js_le (Fin 0) i"
  shows "aggregates_nondecreasing s (s\<lparr>commitCount := Some (js_add (or_zero (commitCount s)) i)\<rparr>)"
    and "aggregates_nondecreasing s (s\<lparr>prCount := Some (js_add (or_zero (prCount s)) i)\<rparr>)"
  using assms
  by (simp_all add: aggregates_nondecreasing_def nondecreasing_refl nondecreasing_add)

lemma ingest_record_aggregates:
  assumes prompt: "\<And>args ts s. aggregates_nondecreasing s (handleUserPrompt M args ts s)"
    and request: "\<And>args ts s. aggregates_nondecreasing s (handleApiRequest M args ts s)"
    and failure: "\<And>args ts s. aggregates_nondecreasing s (handleApiError M args ts s)"
    and tool: "\<And>args ts s. aggregates_nondecreasing s (handleToolResult M args ts s)"
    and own: "\<And>m dp a s. aggregates_nondecreasing s (session_processMetric M m dp a s)"
    and increment: "increment_not_negative r"
  shows "aggregates_nondecreasing s (ingest_record X M r s)"
proof (cases r)
  case (Log logRecord resource)
  let ?s' = "fst (processEvent X M logRecord resource s)"
  have after: "aggregates_nondecreasing s s'"
    if "aggregates_nondecreasing (storeStandardAttrs std s) s'" for std s'
    using aggregates_unread(1) that by (rule aggregates_nondecreasing_trans)
  from processEvent_session [of X M logRecord resource s]
  consider "?s' = s"
    | std where "?s' = storeStandardAttrs std s"
    | std args ts where "?s' = handleUserPrompt M args ts (storeStandardAttrs std s)"
    | std args ts where "?s' = handleApiRequest M args ts (storeStandardAttrs std s)"
    | std args ts where "?s' = handleApiError M args ts (storeStandardAttrs std s)"
    | std args ts where "?s' = handleToolResult M args ts (storeStandardAttrs std s)"
    | std l where "?s' = (storeStandardAttrs std s)\<lparr>langfuse := l\<rparr>"
    by blast
  then have "aggregates_nondecreasing s ?s'"
  proof cases
    case 1
    then show ?thesis by (simp add: aggregates_nondecreasing_refl)
  next
    case 2
    then show ?thesis by (simp add: aggregates_unread(1))
  next
    case 3
    show ?thesis unfolding 3 by (rule after) (rule prompt)
  next
    case 4
    show ?thesis unfolding 4 by (rule after) (rule request)
  next
    case 5
    show ?thesis unfolding 5 by (rule after) (rule failure)
  next
    case 6
    show ?thesis unfolding 6 by (rule after) (rule tool)
  next
    case 7
    show ?thesis unfolding 7 by (rule after) (rule aggregates_unread(2))
  qed
  then show ?thesis by (simp add: Log)
next
  case (Metric m dp a)
  let ?s1 = "session_processMetric M m dp a s"
  let ?s' = "fst (processMetric M m dp a s)"
  have after: "aggregates_nondecreasing s s'" if "aggregates_nondecreasing ?s1 s'" for s'
    using own that by (rule aggregates_nondecreasing_trans)
  from processMetric_session [OF refl, of M m dp a s]
  consider "?s' = ?s1"
    | "name m = JStr ''claude_code.commit.count''"
      "?s' = ?s1\<lparr>commitCount := Some (js_add (or_zero (commitCount ?s1)) (count_increment dp))\<rparr>"
    | "name m = JStr ''claude_code.pr.count'' \<or> name m = JStr ''claude_code.pull_request.count''"
      "?s' = ?s1\<lparr>prCount := Some (js_add (or_zero (prCount ?s1)) (count_increment dp))\<rparr>"
    | v where "?s' = ?s1\<lparr>activeTime := v\<rparr>"
    | "?s' = ?s1\<lparr>sessionStarted := JBool True\<rparr>"
    | ds l where "?s' = ?s1\<lparr>toolDecisions := ds, langfuse := l\<rparr>"
    by blast
  then have "aggregates_nondecreasing s ?s'"
  proof cases
    case 1
    then show ?thesis by (simp add: own)
  next
    case 2
    with increment have "js_le (Fin 0) (count_increment dp)"
      by (simp add: Metric)
    then show ?thesis
      unfolding 2(2) by (intro after aggregates_counted(1))
  next
    case 3
    with increment have "js_le (Fin 0) (count_increment dp)"
      by (auto simp: Metric)
    then show ?thesis
      unfolding 3(2) by (intro after aggregates_counted(2))
  next
    case 4
    show ?thesis unfolding 4 by (intro after aggregates_unread(3))
  next
    case 5
    show ?thesis unfolding 5 by (intro after aggregates_unread(4))
  next
    case 6
    show ?thesis unfolding 6 by (intro after aggregates_unread(5))
  qed
  then show ?thesis by (simp add: Metric)
qed

section \<open>The claims\<close>

text \<open>
  C1. For every recognized metric datapoint the value used for the session mutation is
  taken from \<open>asDouble\<close> or \<open>asInt\<close>, the string form of \<open>asInt\<close> being parsed, and it is 0
  when both are absent; in particular a token, cost or active-time datapoint that carries
  only \<open>asInt\<close> contributes that integer, not 0.

  The code does not do that. The token, cost and active-time processors read
  \<^verbatim>\<open>dataPoint.asDouble || 0\<close> and never look at \<open>asInt\<close>, while the commit and pull-request
  processors next to them read \<^verbatim>\<open>parseInt(dataPoint.asInt || dataPoint.asDouble || '0', 10)\<close>.
  The theorem runs the dispatcher, with the session of the unit tests, on the datapoint
  \<^verbatim>\<open>{ asInt: "250" }\<close> under four metric names: the object returned for the tokens and the
  one for the cost carry 0, the active time of the session is set to 0, and the same
  datapoint as a commit count adds 250.
\<close>

theorem asInt_only_datapoint_contributes_zero:
  "snd (processMetric mock_methods \<lparr>name = JStr ''claude_code.token.usage''\<rparr>
        \<lparr>asDouble = JUndefined, asInt = JStr ''250'', dp_timeUnixNano = example_time\<rparr>
        Map.empty mock_session)
     = Inr (Some [(''type'', JStr ''token''), (''tokens'', JNum (Fin 0)),
                  (''tokenType'', JStr ''unknown''), (''model'', JStr ''unknown''),
                  (''timestamp'', JNum (Fin 1705314645123))])
   \<and> snd (processMetric mock_methods \<lparr>name = JStr ''claude_code.cost.usage''\<rparr>
        \<lparr>asDouble = JUndefined, asInt = JStr ''250'', dp_timeUnixNano = example_time\<rparr>
        Map.empty mock_session)
     = Inr (Some [(''type'', JStr ''cost''), (''cost'', JNum (Fin 0)),
                  (''model'', JStr ''unknown''), (''timestamp'', JNum (Fin 1705314645123))])
   \<and> snd (processMetric mock_methods \<lparr>name = JStr ''claude_code.active_time.total''\<rparr>
        \<lparr>asDouble = JUndefined, asInt = JStr ''250'', dp_timeUnixNano = example_time\<rparr>
        Map.empty mock_session)
     = Inr (Some [(''type'', JStr ''active_time''), (''activeTime'', JNum (Fin 0)),
                  (''timestamp'', JNum (Fin 1705314645123))])
   \<and> activeTime (fst (processMetric mock_methods \<lparr>name = JStr ''claude_code.active_time.total''\<rparr>
        \<lparr>asDouble = JUndefined, asInt = JStr ''250'', dp_timeUnixNano = example_time\<rparr>
        Map.empty (mock_session\<lparr>activeTime := JNum (Fin 120)\<rparr>))) = JNum (Fin 0)
   \<and> commitCount (fst (processMetric mock_methods \<lparr>name = JStr ''claude_code.commit.count''\<rparr>
        \<lparr>asDouble = JUndefined, asInt = JStr ''250'', dp_timeUnixNano = example_time\<rparr>
        Map.empty mock_session)) = Some (Fin 250)"
proof -
  let ?dp = "\<lparr>asDouble = JUndefined, asInt = JStr ''250'', dp_timeUnixNano = example_time\<rparr>"
  have tokens: "snd (processMetric mock_methods \<lparr>name = JStr ''claude_code.token.usage''\<rparr>
        ?dp Map.empty mock_session)
     = Inr (Some [(''type'', JStr ''token''), (''tokens'', JNum (Fin 0)),
                  (''tokenType'', JStr ''unknown''), (''model'', JStr ''unknown''),
                  (''timestamp'', JNum (Fin 1705314645123))])"
    by (simp add: processMetric_dispatch(2) [OF refl refl] returned_def processTokenMetric_def
        object_defs attr_def js_or_def example_time_def)
  have cost: "snd (processMetric mock_methods \<lparr>name = JStr ''claude_code.cost.usage''\<rparr>
        ?dp Map.empty mock_session)
     = Inr (Some [(''type'', JStr ''cost''), (''cost'', JNum (Fin 0)),
                  (''model'', JStr ''unknown''), (''timestamp'', JNum (Fin 1705314645123))])"
    by (simp add: processMetric_dispatch(1) [OF refl refl] returned_def processCostMetric_def
        object_defs attr_def js_or_def example_time_def)
  have active: "processMetric mock_methods \<lparr>name = JStr ''claude_code.active_time.total''\<rparr>
        ?dp Map.empty s
     = (s\<lparr>activeTime := JNum (Fin 0)\<rparr>,
        Inr (Some [(''type'', JStr ''active_time''), (''activeTime'', JNum (Fin 0)),
                  (''timestamp'', JNum (Fin 1705314645123))]))" for s
    by (simp add: processMetric_dispatch(7) [OF refl refl] returned_def
        processActiveTimeMetric_def Let_def object_defs js_or_def example_time_def
        mock_methods_def)
  have "count_increment ?dp = Fin 250"
    by (simp add: count_increment_def js_or_def parseInt_examples)
  then have commits: "commitCount (fst (processMetric mock_methods
        \<lparr>name = JStr ''claude_code.commit.count''\<rparr> ?dp Map.empty mock_session)) = Some (Fin 250)"
    by (simp add: processMetric_dispatch(4) [OF refl refl] fst_returned
        processCommitMetric_session mock_methods_def mock_session_def or_zero_def)
  show ?thesis
    unfolding tokens cost active commits by simp
qed


text \<open>
  C2. A record without \<open>session.id\<close> but with a \<open>user.email\<close> and a timestamp gets the key
  \<open>sanitize(user.email) + "-" + iso_hour_of(timestamp)\<close>, where \<open>sanitize\<close> replaces every
  character outside \<open>[A-Za-z0-9-]\<close> with a hyphen; the email \<open>a.b@x.com\<close> at
  \<open>2024-01-15T10:30:45.123Z\<close> gets \<open>a-b-x-com-2024-01-15T10\<close>.

  \<^verbatim>\<open>generateSessionId\<close> cuts the ISO string after thirteen code units and replaces over
  the whole key, hour included. From the year 10000 on, and before the year 0, the ISO
  string starts with a sign and six digits of year: the thirteen code units stop before the
  hour, and the sign \<open>+\<close> becomes a hyphen. Amended: for a timestamp that is a valid date of
  a year from 0 to 9999 the key of the code is the key of the specification, and the
  example holds with every \<^verbatim>\<open>Date.parse\<close> that reads the date-time format of the
  standard.
\<close>

theorem session_key_derivation:
  "(a ''session.id'' = None \<and> a ''user.email'' = Some (JStr email)
      \<and> Date_new parse timestamp = Some t
      \<and> 0 \<le> YearFromDay (t div 86400000) \<and> YearFromDay (t div 86400000) \<le> 9999
      \<longrightarrow> spec_session_key a t = Some (sanitize email @ ''-'' @ iso_hour_of t)
          \<and> generateSessionId parse email timestamp
              = Inr (sanitize email @ ''-'' @ iso_hour_of t))
   \<and> utc_date_time ''2024-01-15T10:30:45.123Z'' = Some 1705314645123
   \<and> spec_session_key [''user.email'' \<mapsto> JStr ''a.b@x.com''] 1705314645123
       = Some ''a-b-x-com-2024-01-15T10''
   \<and> ((\<forall>s v. utc_date_time s = Some v \<longrightarrow> parse s = Some v)
      \<longrightarrow> generateSessionId parse ''a.b@x.com'' (JStr ''2024-01-15T10:30:45.123Z'')
          = Inr ''a-b-x-com-2024-01-15T10'')"
proof (intro conjI impI)
  assume h: "a ''session.id'' = None \<and> a ''user.email'' = Some (JStr email)
      \<and> Date_new parse timestamp = Some t
      \<and> 0 \<le> YearFromDay (t div 86400000) \<and> YearFromDay (t div 86400000) \<le> 9999"
  then show "spec_session_key a t = Some (sanitize email @ ''-'' @ iso_hour_of t)"
    by (simp add: spec_session_key_def string_attribute_def)
  from h show "generateSessionId parse email timestamp
      = Inr (sanitize email @ ''-'' @ iso_hour_of t)"
    by (intro generateSessionId_valid) simp_all
next
  show "utc_date_time ''2024-01-15T10:30:45.123Z'' = Some 1705314645123"
    by (rule utc_date_time_example)
next
  show "spec_session_key [''user.email'' \<mapsto> JStr ''a.b@x.com''] 1705314645123
       = Some ''a-b-x-com-2024-01-15T10''"
    by (simp add: spec_session_key_def string_attribute_def sanitize_def in_key_class_def
        iso_hour_of_example)
next
  assume "\<forall>s v. utc_date_time s = Some v \<longrightarrow> parse s = Some v"
  then have "parse ''2024-01-15T10:30:45.123Z'' = Some 1705314645123"
    using utc_date_time_example by blast
  then show "generateSessionId parse ''a.b@x.com'' (JStr ''2024-01-15T10:30:45.123Z'')
          = Inr ''a-b-x-com-2024-01-15T10''"
    by (simp add: generateSessionId_def toISOString_example Date_toISOString_def
        replace_non_key_chars_def is_key_char_def)
qed

text \<open>
  The record of the unit test, \<open>test@example.com\<close> at \<open>2024-01-15T10:30:45.123Z\<close>, with a
  \<^verbatim>\<open>Date.parse\<close> that reads the format of the standard and nothing else.
\<close>

theorem session_key_derivation_witness:
  "Date_new utc_date_time (JStr ''2024-01-15T10:30:45.123Z'') = Some 1705314645123
   \<and> YearFromDay (1705314645123 div 86400000) = 2024
   \<and> spec_session_key [''user.email'' \<mapsto> JStr ''test@example.com''] 1705314645123
       = Some ''test-example-com-2024-01-15T10''
   \<and> generateSessionId utc_date_time ''test@example.com'' (JStr ''2024-01-15T10:30:45.123Z'')
       = Inr ''test-example-com-2024-01-15T10''
   \<and> generateSessionId utc_date_time ''a.b@x.com'' (JStr ''2024-01-15T10:30:45.123Z'')
       = Inr ''a-b-x-com-2024-01-15T10''"
proof -
  let ?a = "[''user.email'' \<mapsto> JStr ''test@example.com'']"
  have d: "Date_new utc_date_time (JStr ''2024-01-15T10:30:45.123Z'') = Some 1705314645123"
    by (simp add: utc_date_time_example)
  have y: "YearFromDay (1705314645123 div 86400000) = 2024"
    by (simp add: civil_example)
  have k: "sanitize ''test@example.com'' @ ''-'' @ iso_hour_of 1705314645123
      = ''test-example-com-2024-01-15T10''"
    by (simp add: sanitize_def in_key_class_def iso_hour_of_example)
  note inst = session_key_derivation [where a = ?a and email = "''test@example.com''"
      and parse = utc_date_time and timestamp = "JStr ''2024-01-15T10:30:45.123Z''"
      and t = 1705314645123]
  from inst d y have "spec_session_key ?a 1705314645123
        = Some (sanitize ''test@example.com'' @ ''-'' @ iso_hour_of 1705314645123)
      \<and> generateSessionId utc_date_time ''test@example.com'' (JStr ''2024-01-15T10:30:45.123Z'')
        = Inr (sanitize ''test@example.com'' @ ''-'' @ iso_hour_of 1705314645123)"
    by simp
  moreover from inst
  have "generateSessionId utc_date_time ''a.b@x.com'' (JStr ''2024-01-15T10:30:45.123Z'')
       = Inr ''a-b-x-com-2024-01-15T10''"
    by simp
  ultimately show ?thesis
    unfolding k using d y by simp
qed

text \<open>
  The first millisecond of the year 10000, given as a number, so that no string is parsed:
  the key of the code is neither the key of the specification nor the sanitized email
  followed by the first thirteen code units of the ISO string.
\<close>

theorem year_10000_key_counterexample:
  "Date_new utc_date_time (JNum (Fin 253402300800000)) = Some 253402300800000
   \<and> toISOString 253402300800000 = ''+010000-01-01T00:00:00.000Z''
   \<and> generateSessionId utc_date_time ''a.b@x.com'' (JNum (Fin 253402300800000))
       = Inr ''a-b-x-com--010000-01-01''
   \<and> spec_session_key [''user.email'' \<mapsto> JStr ''a.b@x.com''] 253402300800000
       = Some ''a-b-x-com-+010000-01-01T00''
   \<and> sanitize ''a.b@x.com'' @ ''-'' @ take 13 (toISOString 253402300800000)
       = ''a-b-x-com-+010000-01-01''
   \<and> generateSessionId utc_date_time ''a.b@x.com'' (JNum (Fin 253402300800000))
       \<noteq> Inr (sanitize ''a.b@x.com'' @ ''-'' @ iso_hour_of 253402300800000)"
proof -
  have d: "Date_new utc_date_time (JNum (Fin 253402300800000)) = Some 253402300800000"
    by (simp add: trunc_def)
  have email: "sanitize ''a.b@x.com'' = ''a-b-x-com''"
    by (simp add: sanitize_def in_key_class_def)
  have code: "generateSessionId utc_date_time ''a.b@x.com'' (JNum (Fin 253402300800000))
       = Inr ''a-b-x-com--010000-01-01''"
    unfolding generateSessionId_def d
    by (simp add: Date_toISOString_def toISOString_year_10000 replace_non_key_chars_def
        is_key_char_def)
  have spec: "spec_session_key [''user.email'' \<mapsto> JStr ''a.b@x.com''] 253402300800000
       = Some ''a-b-x-com-+010000-01-01T00''"
    by (simp add: spec_session_key_def string_attribute_def email iso_hour_of_year_10000)
  show ?thesis
    unfolding code spec email toISOString_year_10000 iso_hour_of_year_10000 using d by simp
qed


text \<open>
  C3. A log record whose body is none of the five event names, and a metric whose name is
  none of the recognized metric names, is ignored: nothing is returned, the session is
  left unchanged and no backend entity is created.

  The event processor stores the standard attributes before it looks at the event name, so
  an unknown event can still fill in an identity property. Amended: an unknown event with a
  valid date returns nothing, sends nothing to the backend and leaves the session unchanged
  except that the organization id, the account uuid, the email and the terminal type are
  stored where the session had none; for an unknown metric the dispatcher returns nothing
  and leaves the session exactly as the session's own \<^verbatim>\<open>processMetric\<close> left it.
\<close>

theorem unknown_records_ignored:
  "(body r \<notin> set recognized_events
      \<and> Date_of_num (js_div_pos (timeUnixNano r) 1000000) = Some t
      \<and> a = X (attributes r) \<longrightarrow>
      processEvent X M r resource s =
        (s\<lparr>organizationId := store_if_absent (attr a ''organization.id'') (organizationId s),
           userAccountUuid := store_if_absent (attr a ''user.account_uuid'') (userAccountUuid s),
           userEmail := store_if_absent (attr a ''user.email'') (userEmail s),
           terminalType := store_if_absent (attr a ''terminal.type'') (terminalType s)\<rparr>,
         Inr None)
      \<and> langfuse (fst (processEvent X M r resource s)) = langfuse s)
   \<and> (name m \<notin> set recognized_metrics \<longrightarrow>
      processMetric M m dp attrs s = (session_processMetric M m dp attrs s, Inr None))"
proof (intro conjI impI)
  assume h: "body r \<notin> set recognized_events
      \<and> Date_of_num (js_div_pos (timeUnixNano r) 1000000) = Some t
      \<and> a = X (attributes r)"
  then have run: "processEvent X M r resource s =
      (storeStandardAttrs (standardAttrs_of a s (toISOString t)) s, Inr None)"
    using processEvent_valid(6) [where X = X and r = r and a = a and t = t]
    by (simp add: recognized_events_def)
  then show "processEvent X M r resource s =
        (s\<lparr>organizationId := store_if_absent (attr a ''organization.id'') (organizationId s),
           userAccountUuid := store_if_absent (attr a ''user.account_uuid'') (userAccountUuid s),
           userEmail := store_if_absent (attr a ''user.email'') (userEmail s),
           terminalType := store_if_absent (attr a ''terminal.type'') (terminalType s)\<rparr>,
         Inr None)"
    by (simp add: storeStandardAttrs_of)
  from run show "langfuse (fst (processEvent X M r resource s)) = langfuse s"
    by (simp add: storeStandardAttrs_of)
next
  assume "name m \<notin> set recognized_metrics"
  then show "processMetric M m dp attrs s = (session_processMetric M m dp attrs s, Inr None)"
    by (intro processMetric_unknown) (simp_all add: recognized_metrics_def)
qed

theorem unknown_records_ignored_witness:
  "JStr ''unknown_event'' \<notin> set recognized_events
   \<and> processEvent id mock_methods
        \<lparr>body = JStr ''unknown_event'', attributes = Map.empty, timeUnixNano = example_time\<rparr>
        () mock_session = (mock_session, Inr None)
   \<and> JStr ''unknown.metric'' \<notin> set recognized_metrics
   \<and> processMetric mock_methods \<lparr>name = JStr ''unknown.metric''\<rparr>
        \<lparr>asDouble = JUndefined, asInt = JUndefined, dp_timeUnixNano = example_time\<rparr>
        Map.empty mock_session = (mock_session, Inr None)"
proof -
  let ?r = "\<lparr>body = JStr ''unknown_event'', attributes = Map.empty :: attrs,
            timeUnixNano = example_time\<rparr>"
  have e: "JStr ''unknown_event'' \<notin> set recognized_events"
    by (simp add: recognized_events_def)
  have m: "JStr ''unknown.metric'' \<notin> set recognized_metrics"
    by (simp add: recognized_metrics_def)
  note inst = unknown_records_ignored [where r = ?r and t = 1705314645123 and X = id
      and a = Map.empty and M = mock_methods and resource = "()" and s = mock_session
      and m = "\<lparr>name = JStr ''unknown.metric''\<rparr>"
      and dp = "\<lparr>asDouble = JUndefined, asInt = JUndefined, dp_timeUnixNano = example_time\<rparr>"
      and attrs = Map.empty]
  from inst e have "processEvent id mock_methods ?r () mock_session = (mock_session, Inr None)"
    by (simp add: example_time_valid attr_def store_if_absent_def mock_session_def)
  moreover from inst m have "processMetric mock_methods \<lparr>name = JStr ''unknown.metric''\<rparr>
        \<lparr>asDouble = JUndefined, asInt = JUndefined, dp_timeUnixNano = example_time\<rparr>
        Map.empty mock_session = (mock_session, Inr None)"
    by (simp add: mock_methods_def)
  ultimately show ?thesis using e m by simp
qed

text \<open>
  An unknown event that carries an organization id, on the session of the unit tests: it
  returns nothing, and the session now holds the organization id.
\<close>

theorem unknown_event_counterexample:
  "JStr ''unknown_event'' \<notin> set recognized_events
   \<and> snd (processEvent id mock_methods
        \<lparr>body = JStr ''unknown_event'',
         attributes = [''organization.id'' \<mapsto> JStr ''org-123''],
         timeUnixNano = example_time\<rparr> () mock_session) = Inr None
   \<and> organizationId mock_session = JUndefined
   \<and> organizationId (fst (processEvent id mock_methods
        \<lparr>body = JStr ''unknown_event'',
         attributes = [''organization.id'' \<mapsto> JStr ''org-123''],
         timeUnixNano = example_time\<rparr> () mock_session)) = JStr ''org-123''
   \<and> fst (processEvent id mock_methods
        \<lparr>body = JStr ''unknown_event'',
         attributes = [''organization.id'' \<mapsto> JStr ''org-123''],
         timeUnixNano = example_time\<rparr> () mock_session) \<noteq> mock_session"
proof -
  let ?a = "[''organization.id'' \<mapsto> JStr ''org-123'']"
  let ?r = "\<lparr>body = JStr ''unknown_event'', attributes = ?a, timeUnixNano = example_time\<rparr>"
  have v: "Date_of_num (js_div_pos (timeUnixNano ?r) 1000000) = Some 1705314645123"
    by (simp add: example_time_valid)
  have run: "processEvent id mock_methods ?r () mock_session =
      (storeStandardAttrs (standardAttrs_of ?a mock_session (toISOString 1705314645123))
         mock_session, Inr None)"
    using processEvent_valid(6) [where X = id and r = ?r and a = ?a, OF v] by simp
  have org: "organizationId (fst (processEvent id mock_methods ?r () mock_session))
      = JStr ''org-123''"
    unfolding run by (simp add: storeStandardAttrs_of store_if_absent_def attr_def mock_session_def)
  have old: "organizationId mock_session = JUndefined"
    by (simp add: mock_session_def)
  from org old have "fst (processEvent id mock_methods ?r () mock_session) \<noteq> mock_session"
    by auto
  with org old run show ?thesis
    by (simp add: recognized_events_def)
qed

text \<open>
  C4. In a recognized log record every missing attribute is defaulted by type: strings to
  \<open>unknown\<close>, integers and floats to 0, booleans to false.

  The code has two more string defaults: a missing prompt becomes the empty string and a
  missing error message becomes \<open>Unknown error\<close>; a missing request id stays undefined.
  Amended: the model, the tool name, the decision and the source default to \<open>unknown\<close>,
  the prompt to the empty string, the error message to \<open>Unknown error\<close>; the integers and
  the cost default to 0 and the success flag to false. An attribute with alternative keys is
  missing when all its keys are.
\<close>

theorem missing_attribute_defaults:
  assumes "Date_of_num (js_div_pos (timeUnixNano r) 1000000) = Some t"
    and "a = X (attributes r)"
  shows
    "(body r = JStr ''claude_code.user_prompt'' \<longrightarrow>
        (\<exists>s' ev. processEvent X M r resource s = (s', Inr (Some ev))
           \<and> (missing a [''prompt'', ''user.prompt''] \<longrightarrow> get ev ''prompt'' = JStr [])
           \<and> (missing a [''prompt_length'', ''prompt.length'']
                \<longrightarrow> get ev ''promptLength'' = JNum (Fin 0))))
     \<and> (body r = JStr ''claude_code.api_request'' \<longrightarrow>
        (\<exists>s' ev. processEvent X M r resource s = (s', Inr (Some ev))
           \<and> (missing a [''model'', ''model.name''] \<longrightarrow> get ev ''model'' = JStr ''unknown'')
           \<and> (missing a [''input_tokens'', ''tokens.input'']
                \<longrightarrow> get ev ''inputTokens'' = JNum (Fin 0))
           \<and> (missing a [''output_tokens'', ''tokens.output'']
                \<longrightarrow> get ev ''outputTokens'' = JNum (Fin 0))
           \<and> (missing a [''cache_read_tokens'', ''cache.read_tokens'']
                \<longrightarrow> get ev ''cacheReadTokens'' = JNum (Fin 0))
           \<and> (missing a [''cache_creation_tokens'', ''cache.creation_tokens'']
                \<longrightarrow> get ev ''cacheCreationTokens'' = JNum (Fin 0))
           \<and> (missing a [''cost_usd'', ''cost'', ''cost.usd'']
                \<longrightarrow> get ev ''costUsd'' = JNum (Fin 0))
           \<and> (missing a [''duration_ms'', ''duration'']
                \<longrightarrow> get ev ''durationMs'' = JNum (Fin 0))
           \<and> (missing a [''request_id'', ''request.id'']
                \<longrightarrow> get ev ''requestId'' = JUndefined)))
     \<and> (body r = JStr ''claude_code.api_error'' \<longrightarrow>
        (\<exists>s' ev. processEvent X M r resource s = (s', Inr (Some ev))
           \<and> (missing a [''error_message'', ''error'', ''message'']
                \<longrightarrow> get ev ''errorMessage'' = JStr ''Unknown error'')
           \<and> (missing a [''status_code'', ''status'']
                \<longrightarrow> get ev ''statusCode'' = JNum (Fin 0))
           \<and> (missing a [''model''] \<longrightarrow> get ev ''model'' = JStr ''unknown'')
           \<and> (missing a [''request_id'', ''request.id'']
                \<longrightarrow> get ev ''requestId'' = JUndefined)))
     \<and> (body r = JStr ''claude_code.tool_result'' \<longrightarrow>
        (\<exists>s' ev. processEvent X M r resource s = (s', Inr (Some ev))
           \<and> (missing a [''tool_name'', ''tool'', ''name'']
                \<longrightarrow> get ev ''toolName'' = JStr ''unknown'')
           \<and> (missing a [''success''] \<longrightarrow> get ev ''success'' = JBool False)
           \<and> (missing a [''duration_ms'', ''duration'']
                \<longrightarrow> get ev ''durationMs'' = JNum (Fin 0))))
     \<and> (body r = JStr ''claude_code.tool_decision'' \<longrightarrow>
        (\<exists>s' ev. processEvent X M r resource s = (s', Inr (Some ev))
           \<and> (missing a [''decision''] \<longrightarrow> get ev ''decision'' = JStr ''unknown'')
           \<and> (missing a [''source''] \<longrightarrow> get ev ''source'' = JStr ''unknown'')
           \<and> (missing a [''tool_name'', ''tool'']
                \<longrightarrow> get ev ''toolName'' = JStr ''unknown'')))"
proof -
  let ?std = "standardAttrs_of a s (toISOString t)"
  let ?ts = "js_div_pos (timeUnixNano r) 1000000"
  let ?s1 = "storeStandardAttrs ?std s"
  note run = processEvent_valid [where X = X and r = r and M = M and resource = resource
      and s = s, OF assms(1) assms(2)]
  have prompt: "body r = JStr ''claude_code.user_prompt'' \<Longrightarrow>
      processEvent X M r resource s
        = (fst (processUserPrompt M a ?std ?ts ?s1), Inr (Some (snd (processUserPrompt M a ?std ?ts ?s1))))"
    by (simp add: run returned_def)
  have request: "body r = JStr ''claude_code.api_request'' \<Longrightarrow>
      processEvent X M r resource s
        = (fst (processApiRequest M a ?std ?ts ?s1), Inr (Some (snd (processApiRequest M a ?std ?ts ?s1))))"
    by (simp add: run returned_def)
  have error: "body r = JStr ''claude_code.api_error'' \<Longrightarrow>
      processEvent X M r resource s
        = (fst (processApiError M a ?std ?ts ?s1), Inr (Some (snd (processApiError M a ?std ?ts ?s1))))"
    by (simp add: run returned_def)
  have result: "body r = JStr ''claude_code.tool_result'' \<Longrightarrow>
      processEvent X M r resource s
        = (fst (processToolResult M a ?std ?ts ?s1), Inr (Some (snd (processToolResult M a ?std ?ts ?s1))))"
    by (simp add: run returned_def)
  have decision: "body r = JStr ''claude_code.tool_decision'' \<Longrightarrow>
      processEvent X M r resource s
        = (fst (processToolDecision a ?std ?ts ?s1), Inr (Some (snd (processToolDecision a ?std ?ts ?s1))))"
    by (simp add: run returned_def)
  have p1: "missing a [''prompt'', ''user.prompt'']
      \<Longrightarrow> get (snd (processUserPrompt M a ?std ?ts ?s1)) ''prompt'' = JStr []"
    by (simp add: processUserPrompt_event get_def missing_attrs)
  have p2: "missing a [''prompt_length'', ''prompt.length'']
      \<Longrightarrow> get (snd (processUserPrompt M a ?std ?ts ?s1)) ''promptLength'' = JNum (Fin 0)"
    by (simp add: processUserPrompt_event get_def missing_attrs parseInt_zero)
  have q: "missing a [''model'', ''model.name'']
      \<Longrightarrow> get (snd (processApiRequest M a ?std ?ts ?s1)) ''model'' = JStr ''unknown''"
    "missing a [''input_tokens'', ''tokens.input'']
      \<Longrightarrow> get (snd (processApiRequest M a ?std ?ts ?s1)) ''inputTokens'' = JNum (Fin 0)"
    "missing a [''output_tokens'', ''tokens.output'']
      \<Longrightarrow> get (snd (processApiRequest M a ?std ?ts ?s1)) ''outputTokens'' = JNum (Fin 0)"
    "missing a [''cache_read_tokens'', ''cache.read_tokens'']
      \<Longrightarrow> get (snd (processApiRequest M a ?std ?ts ?s1)) ''cacheReadTokens'' = JNum (Fin 0)"
    "missing a [''cache_creation_tokens'', ''cache.creation_tokens'']
      \<Longrightarrow> get (snd (processApiRequest M a ?std ?ts ?s1)) ''cacheCreationTokens'' = JNum (Fin 0)"
    "missing a [''cost_usd'', ''cost'', ''cost.usd'']
      \<Longrightarrow> get (snd (processApiRequest M a ?std ?ts ?s1)) ''costUsd'' = JNum (Fin 0)"
    "missing a [''duration_ms'', ''duration'']
      \<Longrightarrow> get (snd (processApiRequest M a ?std ?ts ?s1)) ''durationMs'' = JNum (Fin 0)"
    "missing a [''request_id'', ''request.id'']
      \<Longrightarrow> get (snd (processApiRequest M a ?std ?ts ?s1)) ''requestId'' = JUndefined"
    by (simp_all add: processApiRequest_event get_def missing_attrs parseInt_zero parseFloat_zero)
  have e: "missing a [''error_message'', ''error'', ''message'']
      \<Longrightarrow> get (snd (processApiError M a ?std ?ts ?s1)) ''errorMessage'' = JStr ''Unknown error''"
    "missing a [''status_code'', ''status'']
      \<Longrightarrow> get (snd (processApiError M a ?std ?ts ?s1)) ''statusCode'' = JNum (Fin 0)"
    "missing a [''model'']
      \<Longrightarrow> get (snd (processApiError M a ?std ?ts ?s1)) ''model'' = JStr ''unknown''"
    "missing a [''request_id'', ''request.id'']
      \<Longrightarrow> get (snd (processApiError M a ?std ?ts ?s1)) ''requestId'' = JUndefined"
    by (simp_all add: processApiError_event get_def missing_attrs parseInt_zero)
  have t: "missing a [''tool_name'', ''tool'', ''name'']
      \<Longrightarrow> get (snd (processToolResult M a ?std ?ts ?s1)) ''toolName'' = JStr ''unknown''"
    "missing a [''success'']
      \<Longrightarrow> get (snd (processToolResult M a ?std ?ts ?s1)) ''success'' = JBool False"
    "missing a [''duration_ms'', ''duration'']
      \<Longrightarrow> get (snd (processToolResult M a ?std ?ts ?s1)) ''durationMs'' = JNum (Fin 0)"
    by (simp_all add: processToolResult_event get_def missing_attrs parseInt_zero)
  have d: "missing a [''decision'']
      \<Longrightarrow> get (snd (processToolDecision a ?std ?ts ?s1)) ''decision'' = JStr ''unknown''"
    "missing a [''source'']
      \<Longrightarrow> get (snd (processToolDecision a ?std ?ts ?s1)) ''source'' = JStr ''unknown''"
    "missing a [''tool_name'', ''tool'']
      \<Longrightarrow> get (snd (processToolDecision a ?std ?ts ?s1)) ''toolName'' = JStr ''unknown''"
    by (simp_all add: processToolDecision_event get_def missing_attrs)
  show ?thesis
  proof (intro conjI impI)
    assume "body r = JStr ''claude_code.user_prompt''"
    from prompt [OF this] p1 p2
    show "\<exists>s' ev. processEvent X M r resource s = (s', Inr (Some ev))
           \<and> (missing a [''prompt'', ''user.prompt''] \<longrightarrow> get ev ''prompt'' = JStr [])
           \<and> (missing a [''prompt_length'', ''prompt.length'']
                \<longrightarrow> get ev ''promptLength'' = JNum (Fin 0))"
      by blast
  next
    assume "body r = JStr ''claude_code.api_request''"
    from request [OF this] q
    show "\<exists>s' ev. processEvent X M r resource s = (s', Inr (Some ev))
           \<and> (missing a [''model'', ''model.name''] \<longrightarrow> get ev ''model'' = JStr ''unknown'')
           \<and> (missing a [''input_tokens'', ''tokens.input'']
                \<longrightarrow> get ev ''inputTokens'' = JNum (Fin 0))
           \<and> (missing a [''output_tokens'', ''tokens.output'']
                \<longrightarrow> get ev ''outputTokens'' = JNum (Fin 0))
           \<and> (missing a [''cache_read_tokens'', ''cache.read_tokens'']
                \<longrightarrow> get ev ''cacheReadTokens'' = JNum (Fin 0))
           \<and> (missing a [''cache_creation_tokens'', ''cache.creation_tokens'']
                \<longrightarrow> get ev ''cacheCreationTokens'' = JNum (Fin 0))
           \<and> (missing a [''cost_usd'', ''cost'', ''cost.usd'']
                \<longrightarrow> get ev ''costUsd'' = JNum (Fin 0))
           \<and> (missing a [''duration_ms'', ''duration'']
                \<longrightarrow> get ev ''durationMs'' = JNum (Fin 0))
           \<and> (missing a [''request_id'', ''request.id'']
                \<longrightarrow> get ev ''requestId'' = JUndefined)"
      by blast
  next
    assume "body r = JStr ''claude_code.api_error''"
    from error [OF this] e
    show "\<exists>s' ev. processEvent X M r resource s = (s', Inr (Some ev))
           \<and> (missing a [''error_message'', ''error'', ''message'']
                \<longrightarrow> get ev ''errorMessage'' = JStr ''Unknown error'')
           \<and> (missing a [''status_code'', ''status'']
                \<longrightarrow> get ev ''statusCode'' = JNum (Fin 0))
           \<and> (missing a [''model''] \<longrightarrow> get ev ''model'' = JStr ''unknown'')
           \<and> (missing a [''request_id'', ''request.id'']
                \<longrightarrow> get ev ''requestId'' = JUndefined)"
      by blast
  next
    assume "body r = JStr ''claude_code.tool_result''"
    from result [OF this] t
    show "\<exists>s' ev. processEvent X M r resource s = (s', Inr (Some ev))
           \<and> (missing a [''tool_name'', ''tool'', ''name'']
                \<longrightarrow> get ev ''toolName'' = JStr ''unknown'')
           \<and> (missing a [''success''] \<longrightarrow> get ev ''success'' = JBool False)
           \<and> (missing a [''duration_ms'', ''duration'']
                \<longrightarrow> get ev ''durationMs'' = JNum (Fin 0))"
      by blast
  next
    assume "body r = JStr ''claude_code.tool_decision''"
    from decision [OF this] d
    show "\<exists>s' ev. processEvent X M r resource s = (s', Inr (Some ev))
           \<and> (missing a [''decision''] \<longrightarrow> get ev ''decision'' = JStr ''unknown'')
           \<and> (missing a [''source''] \<longrightarrow> get ev ''source'' = JStr ''unknown'')
           \<and> (missing a [''tool_name'', ''tool'']
                \<longrightarrow> get ev ''toolName'' = JStr ''unknown'')"
      by blast
  qed
qed

theorem missing_attribute_defaults_witness:
  "missing [''prompt_length'' \<mapsto> JStr ''10''] [''prompt'', ''user.prompt'']
   \<and> (\<exists>s' ev. processEvent id mock_methods
          \<lparr>body = JStr ''claude_code.user_prompt'',
           attributes = [''prompt_length'' \<mapsto> JStr ''10''],
           timeUnixNano = example_time\<rparr> () mock_session = (s', Inr (Some ev))
        \<and> get ev ''prompt'' = JStr [])"
proof -
  let ?r = "\<lparr>body = JStr ''claude_code.user_prompt'',
           attributes = [''prompt_length'' \<mapsto> JStr ''10''],
           timeUnixNano = example_time\<rparr>"
  have m: "missing [''prompt_length'' \<mapsto> JStr ''10''] [''prompt'', ''user.prompt'']"
    by (simp add: missing_def)
  have v: "Date_of_num (js_div_pos (timeUnixNano ?r) 1000000) = Some 1705314645123"
    by (simp add: example_time_valid)
  have a: "[''prompt_length'' \<mapsto> JStr ''10''] = id (attributes ?r)"
    by simp
  from missing_attribute_defaults [where r = ?r and X = id and M = mock_methods
      and resource = "()" and s = mock_session, OF v a] m
  show ?thesis by auto
qed

text \<open>
  The record of the unit test "handles empty standard attributes": a user prompt without a
  \<open>prompt\<close> attribute is mapped to the empty prompt, not to \<open>unknown\<close>.
\<close>

theorem missing_prompt_counterexample:
  "missing [''prompt_length'' \<mapsto> JStr ''10''] [''prompt'', ''user.prompt'']
   \<and> (\<exists>s' ev. processEvent id mock_methods
          \<lparr>body = JStr ''claude_code.user_prompt'',
           attributes = [''prompt_length'' \<mapsto> JStr ''10''],
           timeUnixNano = example_time\<rparr> () mock_session = (s', Inr (Some ev))
        \<and> get ev ''prompt'' = JStr []
        \<and> get ev ''prompt'' \<noteq> JStr ''unknown'')"
proof -
  let ?a = "[''prompt_length'' \<mapsto> JStr ''10'']"
  let ?r = "\<lparr>body = JStr ''claude_code.user_prompt'', attributes = ?a,
           timeUnixNano = example_time\<rparr>"
  let ?std = "standardAttrs_of ?a mock_session (toISOString 1705314645123)"
  let ?p = "processUserPrompt mock_methods ?a ?std (js_div_pos example_time 1000000)
              (storeStandardAttrs ?std mock_session)"
  have m: "missing ?a [''prompt'', ''user.prompt'']"
    by (simp add: missing_def)
  have v: "Date_of_num (js_div_pos (timeUnixNano ?r) 1000000) = Some 1705314645123"
    by (simp add: example_time_valid)
  have "processEvent id mock_methods ?r () mock_session = (fst ?p, Inr (Some (snd ?p)))"
    using processEvent_valid(1) [where r = ?r and X = id and a = ?a, OF v]
    by (simp add: returned_def)
  moreover have "get (snd ?p) ''prompt'' = JStr []"
    by (simp add: processUserPrompt_event get_def attr_def)
  ultimately show ?thesis using m by auto
qed

text \<open>
  C5. Every processed tool decision, of a \<open>claude_code.tool_decision\<close> log record or of a
  \<open>claude_code.code_edit_tool.decision\<close> datapoint, appends one entry to the session's
  tool decisions; on the metric path the entry is \<open>{tool, decision, language, count,
  timestamp}\<close> and it is appended with or without a current trace.

  Only the metric path appends. The tool decision of a log record sends a backend event
  when there is a trace and keeps no entry. Amended: the metrics processor appends exactly
  the entry \<open>{decision, tool, language, count, timestamp}\<close> to the list the session's own
  \<^verbatim>\<open>processMetric\<close> left, whether or not there is a trace or a backend client; a
  \<open>claude_code.tool_decision\<close> log record leaves the list as it was.
\<close>

theorem tool_decision_entries:
  "(name m = JStr ''claude_code.code_edit_tool.decision'' \<longrightarrow>
      toolDecisions (fst (processMetric M m dp attrs s)) =
        Some ((case toolDecisions (session_processMetric M m dp attrs s) of
                 None \<Rightarrow> [] | Some ds \<Rightarrow> ds) @
          [[(''decision'', js_or (attr attrs ''decision'') (JStr ''unknown'')),
            (''tool'', js_or (attr attrs ''tool'') (JStr ''unknown'')),
            (''language'', js_or (attr attrs ''language'') (JStr ''unknown'')),
            (''count'', js_or (js_or (asDouble dp) (asInt dp)) (JNum (Fin 1))),
            (''timestamp'', JNum (js_div_pos (dp_timeUnixNano dp) 1000000))]]))
   \<and> (body r = JStr ''claude_code.tool_decision'' \<longrightarrow>
      toolDecisions (fst (processEvent X M r resource s)) = toolDecisions s)"
proof (intro conjI impI)
  assume "name m = JStr ''claude_code.code_edit_tool.decision''"
  then show "toolDecisions (fst (processMetric M m dp attrs s)) =
        Some ((case toolDecisions (session_processMetric M m dp attrs s) of
                 None \<Rightarrow> [] | Some ds \<Rightarrow> ds) @
          [[(''decision'', js_or (attr attrs ''decision'') (JStr ''unknown'')),
            (''tool'', js_or (attr attrs ''tool'') (JStr ''unknown'')),
            (''language'', js_or (attr attrs ''language'') (JStr ''unknown'')),
            (''count'', js_or (js_or (asDouble dp) (asInt dp)) (JNum (Fin 1))),
            (''timestamp'', JNum (js_div_pos (dp_timeUnixNano dp) 1000000))]])"
    by (simp add: processMetric_dispatch(5) [OF refl refl] thrown_or_returned_def
        processToolDecisionMetric_entry code_edit_decision_entry_list)
next
  assume b: "body r = JStr ''claude_code.tool_decision''"
  show "toolDecisions (fst (processEvent X M r resource s)) = toolDecisions s"
  proof (cases "Date_of_num (js_div_pos (timeUnixNano r) 1000000)")
    case None
    then show ?thesis by (simp add: processEvent_invalid)
  next
    case (Some t)
    let ?a = "X (attributes r)"
    let ?std = "standardAttrs_of ?a s (toISOString t)"
    let ?d = "processToolDecision ?a ?std (js_div_pos (timeUnixNano r) 1000000)
                (storeStandardAttrs ?std s)"
    have "toolDecisions (fst ?d) = toolDecisions (storeStandardAttrs ?std s)"
      using processToolDecision_frame [of ?a ?std "js_div_pos (timeUnixNano r) 1000000"
          "storeStandardAttrs ?std s"]
      by auto
    also have "\<dots> = toolDecisions s"
      by (simp add: storeStandardAttrs_def)
    finally show ?thesis
      using processEvent_valid(5) [where X = X and r = r and a = ?a and M = M
          and resource = resource and s = s, OF Some refl b]
      by (simp add: returned_def)
  qed
qed

theorem tool_decision_entries_witness:
  "toolDecisions (fst (processMetric mock_methods
       \<lparr>name = JStr ''claude_code.code_edit_tool.decision''\<rparr>
       \<lparr>asDouble = JUndefined, asInt = JStr ''1'', dp_timeUnixNano = example_time\<rparr>
       [''decision'' \<mapsto> JStr ''reject''] mock_session)) =
     Some [[(''decision'', JStr ''reject''), (''tool'', JStr ''unknown''),
            (''language'', JStr ''unknown''), (''count'', JStr ''1''),
            (''timestamp'', JNum (Fin 1705314645123))]]
   \<and> toolDecisions (fst (processEvent id mock_methods
       \<lparr>body = JStr ''claude_code.tool_decision'',
        attributes = [''decision'' \<mapsto> JStr ''reject''],
        timeUnixNano = example_time\<rparr> () mock_session)) = None"
  using tool_decision_entries [where m = "\<lparr>name = JStr ''claude_code.code_edit_tool.decision''\<rparr>"
      and M = mock_methods
      and dp = "\<lparr>asDouble = JUndefined, asInt = JStr ''1'', dp_timeUnixNano = example_time\<rparr>"
      and attrs = "[''decision'' \<mapsto> JStr ''reject'']" and s = mock_session
      and r = "\<lparr>body = JStr ''claude_code.tool_decision'',
        attributes = [''decision'' \<mapsto> JStr ''reject''],
        timeUnixNano = example_time\<rparr>" and X = id and resource = "()"]
  by (simp add: mock_methods_def mock_session_def attr_def js_or_def example_time_def)

text \<open>
  The record of the unit test "processes tool decision event", on a session with a trace, a
  backend client and an empty list: the event is processed and goes to the backend, and
  the list is still empty.
\<close>

theorem log_tool_decision_counterexample:
  "(\<exists>ev. snd (processEvent id mock_methods
       \<lparr>body = JStr ''claude_code.tool_decision'',
        attributes = [''tool_name'' \<mapsto> JStr ''Edit'', ''decision'' \<mapsto> JStr ''accept'',
                      ''source'' \<mapsto> JStr ''user''],
        timeUnixNano = example_time\<rparr> ()
       (mock_session\<lparr>toolDecisions := Some [], currentTrace := Some (JStr ''trace-1''),
          langfuse := Some []\<rparr>)) = Inr (Some ev))
   \<and> toolDecisions (fst (processEvent id mock_methods
       \<lparr>body = JStr ''claude_code.tool_decision'',
        attributes = [''tool_name'' \<mapsto> JStr ''Edit'', ''decision'' \<mapsto> JStr ''accept'',
                      ''source'' \<mapsto> JStr ''user''],
        timeUnixNano = example_time\<rparr> ()
       (mock_session\<lparr>toolDecisions := Some [], currentTrace := Some (JStr ''trace-1''),
          langfuse := Some []\<rparr>))) = Some []"
proof -
  let ?a = "[''tool_name'' \<mapsto> JStr ''Edit'', ''decision'' \<mapsto> JStr ''accept'',
             ''source'' \<mapsto> JStr ''user'']"
  let ?r = "\<lparr>body = JStr ''claude_code.tool_decision'', attributes = ?a,
            timeUnixNano = example_time\<rparr>"
  let ?s = "mock_session\<lparr>toolDecisions := Some [], currentTrace := Some (JStr ''trace-1''),
          langfuse := Some []\<rparr>"
  let ?std = "standardAttrs_of ?a ?s (toISOString 1705314645123)"
  let ?d = "processToolDecision ?a ?std (js_div_pos example_time 1000000)
              (storeStandardAttrs ?std ?s)"
  have v: "Date_of_num (js_div_pos (timeUnixNano ?r) 1000000) = Some 1705314645123"
    by (simp add: example_time_valid)
  have run: "processEvent id mock_methods ?r () ?s = (fst ?d, Inr (Some (snd ?d)))"
    using processEvent_valid(5) [where X = id and r = ?r and a = ?a and s = ?s
        and M = mock_methods and resource = "()", OF v]
    by (simp add: returned_def)
  have "toolDecisions (fst ?d) = toolDecisions (storeStandardAttrs ?std ?s)"
    using processToolDecision_frame [of ?a ?std "js_div_pos example_time 1000000"
        "storeStandardAttrs ?std ?s"]
    by auto
  also have "\<dots> = Some []"
    by (simp add: storeStandardAttrs_def)
  finally show ?thesis
    by (simp add: run)
qed

text \<open>
  C6. Whenever a tool decision produces a backend event, on the log path or on the metric
  path with a current trace, the level of the event is DEFAULT if and only if the
  \<open>decision\<close> attribute equals \<open>accept\<close>, and WARNING otherwise.

  An event is produced when the session has a current trace and a backend client (on the
  log path a valid date is what lets the record through; on the metric path the trace is
  the one the session's own \<^verbatim>\<open>processMetric\<close> left, and the date must render). The
  backend then holds exactly one more event, with that level.
\<close>

theorem tool_decision_event_level:
  "(body r = JStr ''claude_code.tool_decision''
      \<and> Date_of_num (js_div_pos (timeUnixNano r) 1000000) = Some t
      \<and> currentTrace s = Some traceId \<and> langfuse s = Some events \<longrightarrow>
      (\<exists>e. langfuse (fst (processEvent X M r resource s)) = Some (events @ [e])
         \<and> ev_level e = (if attr (X (attributes r)) ''decision'' = JStr ''accept''
                          then ''DEFAULT'' else ''WARNING'')))
   \<and> (name m = JStr ''claude_code.code_edit_tool.decision''
      \<and> Date_of_num (js_div_pos (dp_timeUnixNano dp) 1000000) = Some t'
      \<and> currentTrace (session_processMetric M m dp attrs s) = Some traceId'
      \<and> langfuse (session_processMetric M m dp attrs s) = Some events' \<longrightarrow>
      (\<exists>e. langfuse (fst (processMetric M m dp attrs s)) = Some (events' @ [e])
         \<and> ev_level e = (if attr attrs ''decision'' = JStr ''accept''
                          then ''DEFAULT'' else ''WARNING'')))"
proof (intro conjI impI)
  assume h: "body r = JStr ''claude_code.tool_decision''
      \<and> Date_of_num (js_div_pos (timeUnixNano r) 1000000) = Some t
      \<and> currentTrace s = Some traceId \<and> langfuse s = Some events"
  let ?a = "X (attributes r)"
  let ?std = "standardAttrs_of ?a s (toISOString t)"
  let ?s1 = "storeStandardAttrs ?std s"
  have "currentTrace ?s1 = Some traceId" "langfuse ?s1 = Some events"
    using h by (simp_all add: storeStandardAttrs_def)
  from processToolDecision_emits [OF this]
  obtain e where "langfuse (fst (processToolDecision ?a ?std
        (js_div_pos (timeUnixNano r) 1000000) ?s1)) = Some (events @ [e])"
    and "ev_level e = (if attr ?a ''decision'' = JStr ''accept'' then ''DEFAULT'' else ''WARNING'')"
    by blast
  moreover have "processEvent X M r resource s =
      returned (processToolDecision ?a ?std (js_div_pos (timeUnixNano r) 1000000) ?s1)"
    using h processEvent_valid(5) [where X = X and r = r and a = ?a and t = t and M = M
        and resource = resource and s = s]
    by simp
  ultimately show "\<exists>e. langfuse (fst (processEvent X M r resource s)) = Some (events @ [e])
         \<and> ev_level e = (if attr (X (attributes r)) ''decision'' = JStr ''accept''
                          then ''DEFAULT'' else ''WARNING'')"
    by (auto simp: returned_def)
next
  assume h: "name m = JStr ''claude_code.code_edit_tool.decision''
      \<and> Date_of_num (js_div_pos (dp_timeUnixNano dp) 1000000) = Some t'
      \<and> currentTrace (session_processMetric M m dp attrs s) = Some traceId'
      \<and> langfuse (session_processMetric M m dp attrs s) = Some events'"
  let ?s1 = "session_processMetric M m dp attrs s"
  let ?ts = "js_div_pos (dp_timeUnixNano dp) 1000000"
  from h have "currentTrace ?s1 = Some traceId'" "langfuse ?s1 = Some events'"
    "Date_of_num ?ts = Some t'"
    by simp_all
  from processToolDecisionMetric_emits [OF this]
  obtain e where "langfuse (fst (processToolDecisionMetric dp attrs ?ts ?s1)) = Some (events' @ [e])"
    and "ev_level e = (if attr attrs ''decision'' = JStr ''accept'' then ''DEFAULT'' else ''WARNING'')"
    by blast
  moreover have "processMetric M m dp attrs s
      = thrown_or_returned (processToolDecisionMetric dp attrs ?ts ?s1)"
    using h by (simp add: processMetric_dispatch(5) [OF refl refl])
  ultimately show "\<exists>e. langfuse (fst (processMetric M m dp attrs s)) = Some (events' @ [e])
         \<and> ev_level e = (if attr attrs ''decision'' = JStr ''accept''
                          then ''DEFAULT'' else ''WARNING'')"
    by (auto simp: thrown_or_returned_def)
qed

theorem tool_decision_event_level_witness:
  "(\<exists>e. langfuse (fst (processEvent id mock_methods
        \<lparr>body = JStr ''claude_code.tool_decision'',
         attributes = [''decision'' \<mapsto> JStr ''reject''],
         timeUnixNano = example_time\<rparr> ()
        (mock_session\<lparr>currentTrace := Some (JStr ''trace-1''), langfuse := Some []\<rparr>)))
          = Some [e]
      \<and> ev_level e = ''WARNING'')
   \<and> (\<exists>e. langfuse (fst (processMetric mock_methods
        \<lparr>name = JStr ''claude_code.code_edit_tool.decision''\<rparr>
        \<lparr>asDouble = JUndefined, asInt = JStr ''1'', dp_timeUnixNano = example_time\<rparr>
        [''decision'' \<mapsto> JStr ''accept'']
        (mock_session\<lparr>currentTrace := Some (JStr ''trace-1''), langfuse := Some []\<rparr>)))
          = Some [e]
      \<and> ev_level e = ''DEFAULT'')"
  using tool_decision_event_level [where r = "\<lparr>body = JStr ''claude_code.tool_decision'',
         attributes = [''decision'' \<mapsto> JStr ''reject''],
         timeUnixNano = example_time\<rparr>" and t = 1705314645123 and t' = 1705314645123
      and s = "mock_session\<lparr>currentTrace := Some (JStr ''trace-1''), langfuse := Some []\<rparr>"
      and traceId = "JStr ''trace-1''" and traceId' = "JStr ''trace-1''"
      and events = "[]" and events' = "[]" and X = id and M = mock_methods and resource = "()"
      and m = "\<lparr>name = JStr ''claude_code.code_edit_tool.decision''\<rparr>"
      and dp = "\<lparr>asDouble = JUndefined, asInt = JStr ''1'', dp_timeUnixNano = example_time\<rparr>"
      and attrs = "[''decision'' \<mapsto> JStr ''accept'']"]
  by (simp add: example_time_valid mock_methods_def attr_def)

text \<open>
  C7. For every datapoint and every session, a metric named \<open>claude_code.pr.count\<close> and one
  named \<open>claude_code.pull_request.count\<close> are processed alike: the same session mutation
  (\<open>prCount\<close> increased by the same parsed amount) and the same result.

  The dispatcher hands the metric to the session's own \<^verbatim>\<open>processMetric\<close> first, name
  included. From the state that method leaves, the two names take the same branch; so the
  two runs agree whenever that method, which is the session's, treats the two metrics
  alike.
\<close>

theorem pr_count_names_agree:
  assumes "name m1 = JStr ''claude_code.pr.count''"
    and "name m2 = JStr ''claude_code.pull_request.count''"
    and "session_processMetric M m1 dp attrs s = session_processMetric M m2 dp attrs s"
  shows "processMetric M m1 dp attrs s = processMetric M m2 dp attrs s
     \<and> prCount (fst (processMetric M m1 dp attrs s))
         = Some (js_add (or_zero (prCount (session_processMetric M m1 dp attrs s)))
                   (count_increment dp))
     \<and> snd (processMetric M m1 dp attrs s)
         = Inr (Some [(''type'', JStr ''pull_request''),
                      (''prCount'', JNum (count_increment dp)),
                      (''timestamp'', JNum (js_div_pos (dp_timeUnixNano dp) 1000000))])"
  using assms
  by (simp add: processMetric_dispatch(8) [OF refl refl] processMetric_dispatch(9) [OF refl refl]
      returned_def processPullRequestMetric_def Let_def object_defs)

theorem pr_count_names_agree_witness:
  "processMetric mock_methods \<lparr>name = JStr ''claude_code.pr.count''\<rparr>
       \<lparr>asDouble = JUndefined, asInt = JStr ''3'', dp_timeUnixNano = example_time\<rparr>
       Map.empty mock_session
     = processMetric mock_methods \<lparr>name = JStr ''claude_code.pull_request.count''\<rparr>
       \<lparr>asDouble = JUndefined, asInt = JStr ''3'', dp_timeUnixNano = example_time\<rparr>
       Map.empty mock_session
   \<and> prCount (fst (processMetric mock_methods \<lparr>name = JStr ''claude_code.pr.count''\<rparr>
       \<lparr>asDouble = JUndefined, asInt = JStr ''3'', dp_timeUnixNano = example_time\<rparr>
       Map.empty mock_session)) = Some (Fin 3)"
proof -
  let ?m1 = "\<lparr>name = JStr ''claude_code.pr.count''\<rparr>"
  let ?m2 = "\<lparr>name = JStr ''claude_code.pull_request.count''\<rparr>"
  let ?dp = "\<lparr>asDouble = JUndefined, asInt = JStr ''3'', dp_timeUnixNano = example_time\<rparr>"
  have n1: "name ?m1 = JStr ''claude_code.pr.count''"
    and n2: "name ?m2 = JStr ''claude_code.pull_request.count''"
    by simp_all
  have same: "session_processMetric mock_methods ?m1 ?dp Map.empty mock_session
      = session_processMetric mock_methods ?m2 ?dp Map.empty mock_session"
    by (simp add: mock_methods_def)
  note agree = pr_count_names_agree [OF n1 n2 same]
  have "count_increment ?dp = Fin 3"
    by (simp add: count_increment_def js_or_def parseInt_examples)
  then have three: "js_add (or_zero (prCount (session_processMetric mock_methods ?m1 ?dp
      Map.empty mock_session))) (count_increment ?dp) = Fin 3"
    by (simp add: mock_methods_def mock_session_def or_zero_def)
  have "prCount (fst (processMetric mock_methods ?m1 ?dp Map.empty mock_session))
      = Some (Fin 3)"
    by (rule trans [OF agree [THEN conjunct2, THEN conjunct1]]) (simp only: three)
  with agree [THEN conjunct1] show ?thesis by (rule conjI)
qed

text \<open>
  C8. First write wins on the identity of a session: once a session holds a non-empty
  value for the organization id, the account uuid, the email, the terminal type or the
  application version, processing any later record, whatever value it carries for that
  property, leaves the stored value unchanged.

  The two processors write the first four properties only where the session has none, and
  never write the application version. The methods of the session they call are those of
  the session handler; the theorem holds for every sequence of log records and metric
  datapoints and for all such methods that leave the identity alone.
\<close>

theorem identity_first_write_wins:
  assumes "\<And>args ts s. identity_of (handleUserPrompt M args ts s) = identity_of s"
    and "\<And>args ts s. identity_of (handleApiRequest M args ts s) = identity_of s"
    and "\<And>args ts s. identity_of (handleApiError M args ts s) = identity_of s"
    and "\<And>args ts s. identity_of (handleToolResult M args ts s) = identity_of s"
    and "\<And>m dp a s. identity_of (session_processMetric M m dp a s) = identity_of s"
  shows "(truthy (organizationId s)
            \<longrightarrow> organizationId (ingest_all X M rs s) = organizationId s)
       \<and> (truthy (userAccountUuid s)
            \<longrightarrow> userAccountUuid (ingest_all X M rs s) = userAccountUuid s)
       \<and> (truthy (userEmail s)
            \<longrightarrow> userEmail (ingest_all X M rs s) = userEmail s)
       \<and> (truthy (terminalType s)
            \<longrightarrow> terminalType (ingest_all X M rs s) = terminalType s)
       \<and> (truthy (appVersion s)
            \<longrightarrow> appVersion (ingest_all X M rs s) = appVersion s)"
proof (induction rs arbitrary: s)
  case Nil
  show ?case by simp
next
  case (Cons r rs)
  note step = ingest_record_identity [of M, OF assms, where s = s and X = X and r = r]
  note rest = Cons.IH [of "ingest_record X M r s"]
  have "organizationId (ingest_all X M (r # rs) s) = organizationId s"
    if "truthy (organizationId s)"
    using that step(1) rest by simp
  moreover have "userAccountUuid (ingest_all X M (r # rs) s) = userAccountUuid s"
    if "truthy (userAccountUuid s)"
    using that step(2) rest by simp
  moreover have "userEmail (ingest_all X M (r # rs) s) = userEmail s"
    if "truthy (userEmail s)"
    using that step(3) rest by simp
  moreover have "terminalType (ingest_all X M (r # rs) s) = terminalType s"
    if "truthy (terminalType s)"
    using that step(4) rest by simp
  moreover have "appVersion (ingest_all X M (r # rs) s) = appVersion s"
    if "truthy (appVersion s)"
    using that step(5) rest by simp
  ultimately show ?case by blast
qed

text \<open>
  A session of the unit tests that holds all five properties meets a prompt whose
  attributes carry other values for each of them, then a commit datapoint.
\<close>

theorem identity_first_write_wins_witness:
  "identity_of
     (ingest_all id mock_methods
        [Log \<lparr>body = JStr ''claude_code.user_prompt'',
              attributes = [''organization.id'' \<mapsto> JStr ''org-456'',
                            ''user.account_uuid'' \<mapsto> JStr ''uuid-456'',
                            ''user.email'' \<mapsto> JStr ''other@example.com'',
                            ''terminal.type'' \<mapsto> JStr ''iterm'',
                            ''app.version'' \<mapsto> JStr ''2.0.0''],
              timeUnixNano = example_time\<rparr> (),
         Metric \<lparr>name = JStr ''claude_code.commit.count''\<rparr>
           \<lparr>asDouble = JUndefined, asInt = JStr ''1'', dp_timeUnixNano = example_time\<rparr>
           Map.empty]
        (mock_session\<lparr>organizationId := JStr ''org-123'',
                       userAccountUuid := JStr ''uuid-123'',
                       userEmail := JStr ''test@example.com'',
                       terminalType := JStr ''vscode'',
                       appVersion := JStr ''1.0.0''\<rparr>))
   = [JStr ''org-123'', JStr ''uuid-123'', JStr ''test@example.com'', JStr ''vscode'',
      JStr ''1.0.0'']"
proof -
  let ?s = "mock_session\<lparr>organizationId := JStr ''org-123'',
                       userAccountUuid := JStr ''uuid-123'',
                       userEmail := JStr ''test@example.com'',
                       terminalType := JStr ''vscode'',
                       appVersion := JStr ''1.0.0''\<rparr>"
  let ?rs = "[Log \<lparr>body = JStr ''claude_code.user_prompt'',
              attributes = [''organization.id'' \<mapsto> JStr ''org-456'',
                            ''user.account_uuid'' \<mapsto> JStr ''uuid-456'',
                            ''user.email'' \<mapsto> JStr ''other@example.com'',
                            ''terminal.type'' \<mapsto> JStr ''iterm'',
                            ''app.version'' \<mapsto> JStr ''2.0.0''],
              timeUnixNano = example_time\<rparr> (),
         Metric \<lparr>name = JStr ''claude_code.commit.count''\<rparr>
           \<lparr>asDouble = JUndefined, asInt = JStr ''1'', dp_timeUnixNano = example_time\<rparr>
           Map.empty]"
  have kept: "identity_of (h s) = identity_of s" if "h = (\<lambda>s. s)" for h and s :: session
    using that by simp
  note inst = identity_first_write_wins [of mock_methods ?s id ?rs]
  have "organizationId (ingest_all id mock_methods ?rs ?s) = JStr ''org-123''
      \<and> userAccountUuid (ingest_all id mock_methods ?rs ?s) = JStr ''uuid-123''
      \<and> userEmail (ingest_all id mock_methods ?rs ?s) = JStr ''test@example.com''
      \<and> terminalType (ingest_all id mock_methods ?rs ?s) = JStr ''vscode''
      \<and> appVersion (ingest_all id mock_methods ?rs ?s) = JStr ''1.0.0''"
    using inst by (simp add: mock_methods_def)
  then show ?thesis
    unfolding identity_of_def by (simp only:)
qed


text \<open>
  C9. For any session and any sequence of ingested records, the total cost, the number of
  API calls, the number of tool results, the number of commits and the number of pull
  requests never decrease; in particular every commit and pull-request datapoint leaves
  \<open>commitCount\<close> and \<open>prCount\<close> greater than or equal to their previous values.

  The two counters are increased by whatever number \<^verbatim>\<open>parseInt\<close> reads off the
  datapoint, and nothing checks its sign: a datapoint of value \<open>-1\<close> takes one off.
  Amended: the aggregates never decrease along a sequence of records whose commit and
  pull-request datapoints carry increments that are numbers and not negative. The other
  three aggregates are written by the methods of the session only, which are those of the
  session handler: the theorem holds for all such methods that never decrease an
  aggregate.
\<close>

theorem aggregates_never_decrease:
  assumes "\<And>args ts s. aggregates_nondecreasing s (handleUserPrompt M args ts s)"
    and "\<And>args ts s. aggregates_nondecreasing s (handleApiRequest M args ts s)"
    and "\<And>args ts s. aggregates_nondecreasing s (handleApiError M args ts s)"
    and "\<And>args ts s. aggregates_nondecreasing s (handleToolResult M args ts s)"
    and "\<And>m dp a s. aggregates_nondecreasing s (session_processMetric M m dp a s)"
    and "list_all increment_not_negative rs"
  shows "aggregates_nondecreasing s (ingest_all X M rs s)"
  using assms(6)
proof (induction rs arbitrary: s)
  case Nil
  show ?case by (simp add: aggregates_nondecreasing_refl)
next
  case (Cons r rs)
  from Cons.prems have first: "increment_not_negative r"
    and others: "list_all increment_not_negative rs"
    by simp_all
  have "aggregates_nondecreasing s (ingest_record X M r s)"
    using assms(1-5) first by (rule ingest_record_aggregates)
  moreover have "aggregates_nondecreasing (ingest_record X M r s)
      (ingest_all X M rs (ingest_record X M r s))"
    using others by (rule Cons.IH)
  ultimately have "aggregates_nondecreasing s (ingest_all X M rs (ingest_record X M r s))"
    by (rule aggregates_nondecreasing_trans)
  then show ?case by simp
qed

text \<open>
  The session of the unit tests meets a prompt, two commits and three pull requests.
\<close>

theorem aggregates_never_decrease_witness:
  "list_all increment_not_negative
     [Log \<lparr>body = JStr ''claude_code.user_prompt'', attributes = Map.empty :: attrs,
           timeUnixNano = example_time\<rparr> (),
      Metric \<lparr>name = JStr ''claude_code.commit.count''\<rparr>
        \<lparr>asDouble = JUndefined, asInt = JStr ''2'', dp_timeUnixNano = example_time\<rparr>
        Map.empty,
      Metric \<lparr>name = JStr ''claude_code.pull_request.count''\<rparr>
        \<lparr>asDouble = JUndefined, asInt = JStr ''3'', dp_timeUnixNano = example_time\<rparr>
        Map.empty]
   \<and> aggregates_nondecreasing mock_session
       (ingest_all id mock_methods
          [Log \<lparr>body = JStr ''claude_code.user_prompt'', attributes = Map.empty,
                timeUnixNano = example_time\<rparr> (),
           Metric \<lparr>name = JStr ''claude_code.commit.count''\<rparr>
             \<lparr>asDouble = JUndefined, asInt = JStr ''2'', dp_timeUnixNano = example_time\<rparr>
             Map.empty,
           Metric \<lparr>name = JStr ''claude_code.pull_request.count''\<rparr>
             \<lparr>asDouble = JUndefined, asInt = JStr ''3'', dp_timeUnixNano = example_time\<rparr>
             Map.empty]
          mock_session)"
proof -
  let ?rs = "[Log \<lparr>body = JStr ''claude_code.user_prompt'', attributes = Map.empty :: attrs,
           timeUnixNano = example_time\<rparr> (),
      Metric \<lparr>name = JStr ''claude_code.commit.count''\<rparr>
        \<lparr>asDouble = JUndefined, asInt = JStr ''2'', dp_timeUnixNano = example_time\<rparr>
        Map.empty,
      Metric \<lparr>name = JStr ''claude_code.pull_request.count''\<rparr>
        \<lparr>asDouble = JUndefined, asInt = JStr ''3'', dp_timeUnixNano = example_time\<rparr>
        Map.empty]"
  have increments: "list_all increment_not_negative ?rs"
    by (simp add: count_increment_def js_or_def parseInt_examples)
  have "aggregates_nondecreasing mock_session (ingest_all id mock_methods ?rs mock_session)"
    by (rule aggregates_never_decrease [OF _ _ _ _ _ increments])
      (simp_all add: mock_methods_def aggregates_nondecreasing_refl)
  with increments show ?thesis by (rule conjI)
qed

text \<open>
  A commit datapoint of value \<open>-1\<close>, on a session that counts five commits: it counts four.
\<close>

theorem negative_commit_count_counterexample:
  "commitCount (fst (processMetric mock_methods \<lparr>name = JStr ''claude_code.commit.count''\<rparr>
       \<lparr>asDouble = JUndefined, asInt = JStr ''-1'', dp_timeUnixNano = example_time\<rparr>
       Map.empty (mock_session\<lparr>commitCount := Some (Fin 5)\<rparr>))) = Some (Fin 4)
   \<and> \<not> aggregates_nondecreasing (mock_session\<lparr>commitCount := Some (Fin 5)\<rparr>)
         (ingest_all id mock_methods
            [Metric \<lparr>name = JStr ''claude_code.commit.count''\<rparr>
               \<lparr>asDouble = JUndefined, asInt = JStr ''-1'', dp_timeUnixNano = example_time\<rparr>
               Map.empty :: (attrs, unit) ingest]
            (mock_session\<lparr>commitCount := Some (Fin 5)\<rparr>))"
proof -
  let ?m = "\<lparr>name = JStr ''claude_code.commit.count''\<rparr>"
  let ?dp = "\<lparr>asDouble = JUndefined, asInt = JStr ''-1'', dp_timeUnixNano = example_time\<rparr>"
  let ?s = "mock_session\<lparr>commitCount := Some (Fin 5)\<rparr>"
  have "count_increment ?dp = Fin (- 1)"
    by (simp add: count_increment_def js_or_def parseInt_examples)
  then have four: "commitCount (fst (processMetric mock_methods ?m ?dp Map.empty ?s))
      = Some (Fin 4)"
    by (simp add: processMetric_dispatch(4) [OF refl refl] fst_returned
        processCommitMetric_session mock_methods_def or_zero_def)
  then have "\<not> nondecreasing (commitCount ?s)
      (commitCount (fst (processMetric mock_methods ?m ?dp Map.empty ?s)))"
    by (simp add: nondecreasing_def or_zero_def)
  then have "\<not> aggregates_nondecreasing ?s (fst (processMetric mock_methods ?m ?dp Map.empty ?s))"
    by (simp add: aggregates_nondecreasing_def)
  with four show ?thesis by simp
qed


text \<open>
  C10. For a \<open>claude_code.tool_result\<close> log record the mapped success flag is true if and
  only if the \<open>success\<close> attribute is the boolean true or exactly the string \<open>true\<close>; any
  other value, or no attribute, maps to false. The record is one the processor returns
  from: its time is a valid date.
\<close>

theorem tool_result_success_flag:
  assumes "body logRecord = JStr ''claude_code.tool_result''"
    and "Date_of_num (js_div_pos (timeUnixNano logRecord) 1000000) = Some t"
  shows "\<exists>s' ev. processEvent X M logRecord resource s = (s', Inr (Some ev))
           \<and> get ev ''success''
               = JBool (attr (X (attributes logRecord)) ''success'' = JBool True
                        \<or> attr (X (attributes logRecord)) ''success'' = JStr ''true'')"
proof -
  let ?a = "X (attributes logRecord)"
  let ?std = "standardAttrs_of ?a s (toISOString t)"
  let ?r = "processToolResult M ?a ?std (js_div_pos (timeUnixNano logRecord) 1000000)
              (storeStandardAttrs ?std s)"
  have "processEvent X M logRecord resource s = (fst ?r, Inr (Some (snd ?r)))"
    using assms(1) by (simp add: processEvent_valid [where X = X and r = logRecord, OF assms(2) refl] returned_def)
  moreover have "get (snd ?r) ''success''
      = JBool (attr ?a ''success'' = JBool True \<or> attr ?a ''success'' = JStr ''true'')"
    by (auto simp add: processToolResult_event get_def)
  ultimately show ?thesis by blast
qed

theorem tool_result_success_flag_witness:
  "\<exists>s' ev. processEvent id mock_methods
       \<lparr>body = JStr ''claude_code.tool_result'', attributes = [''success'' \<mapsto> JStr ''True''],
        timeUnixNano = example_time\<rparr> () mock_session = (s', Inr (Some ev))
     \<and> get ev ''success'' = JBool False"
  using tool_result_success_flag [of
      "\<lparr>body = JStr ''claude_code.tool_result'', attributes = [''success'' \<mapsto> JStr ''True''],
        timeUnixNano = example_time\<rparr>" 1705314645123 id mock_methods "()" mock_session]
  by (simp add: example_time_valid attr_def)

end
